theory Spec2Isabelle
  imports Main "HOL-Library.Word" "HOL-Library.Signed_Division"
begin

section \<open>Data model\<close>

text \<open>
  The Kubernetes job provisioner of tsuru (\<^verbatim>\<open>provision/kubernetes/job.go\<close>).
  Go's \<^verbatim>\<open>int32\<close> and \<^verbatim>\<open>int64\<close> are words read as two's complement
  (\<open>sint\<close>); a pointer to a scalar is an \<open>option\<close> (\<open>None\<close> is \<^verbatim>\<open>nil\<close>);
  a \<^verbatim>\<open>map[string]string\<close> is a partial function, the nil map being the
  empty one; a slice is a list, the nil slice being the empty one.
\<close>

type_synonym int32 = "32 word"
type_synonym int64 = "64 word"
type_synonym labels = "string \<rightharpoonup> string"

text \<open>An instant, as \<^verbatim>\<open>time.Time\<close> counts it (the location does not change it).\<close>

type_synonym Time = int

text \<open>
  Go's \<^verbatim>\<open>error\<close> values. The code only tells errors apart with
  \<^verbatim>\<open>k8sErrors.IsNotFound\<close>; the orchestrator also answers a create of an
  existing name with a conflict.
\<close>

datatype error = NotFound string | AlreadyExists string | Failure string

fun IsNotFound :: "error \<Rightarrow> bool" where
  "IsNotFound (NotFound _) = True"
| "IsNotFound _ = False"

subsection \<open>The platform's Job (package \<^verbatim>\<open>types/job\<close>), as far as the code reads it\<close>

record EnvVar =
  Name :: string
  Value :: string

record ContainerInfo =
  InternalRegistryImage :: string
  OriginalImageSrc :: string
  Command :: "string list"

record MetadataItem =
  Name :: string
  Value :: string

record Metadata =
  Labels :: "MetadataItem list"
  Annotations :: "MetadataItem list"

record JobSpec =
  Completions :: "int32 option"
  Parallelism :: "int32 option"
  ActiveDeadlineSeconds :: "int64 option"
  BackoffLimit :: "int32 option"
  Schedule :: string
  Manual :: bool
  Container :: ContainerInfo
  Envs :: "EnvVar list"
  ServiceEnvs :: "EnvVar list"

record Job =
  Name :: string
  Pool :: string
  Spec :: JobSpec
  Metadata :: Metadata

subsection \<open>Orchestrator objects (\<^verbatim>\<open>batch/v1\<close>, \<^verbatim>\<open>core/v1\<close>, \<^verbatim>\<open>meta/v1\<close>)\<close>

record OwnerReference =
  Name :: string
  Kind :: string
  UID :: string
  APIVersion :: string

record ObjectMeta =
  Name :: string
  Namespace :: string
  UID :: string
  Labels :: labels
  Annotations :: labels
  OwnerReferences :: "OwnerReference list"
  CreationTimestamp :: Time

record ResourceRequirements =
  Limits :: "(string \<times> string) list"
  Requests :: "(string \<times> string) list"

record K8sContainer =
  Name :: string
  Image :: string
  Command :: "string list"
  Resources :: ResourceRequirements
  Env :: "EnvVar list"

record PodSpec =
  RestartPolicy :: string
  Containers :: "K8sContainer list"
  ServiceAccountName :: string

record PodTemplateSpec =
  ObjectMeta :: ObjectMeta
  Spec :: PodSpec

record K8sJobSpec =
  Parallelism :: "int32 option"
  BackoffLimit :: "int32 option"
  Completions :: "int32 option"
  ActiveDeadlineSeconds :: "int64 option"
  TTLSecondsAfterFinished :: "int32 option"
  Template :: PodTemplateSpec

record JobStatus =
  Failed :: int32
  Succeeded :: int32

record K8sJob =
  ObjectMeta :: ObjectMeta
  Spec :: K8sJobSpec
  Status :: JobStatus

record CronJobSpec =
  Schedule :: string
  Suspend :: "bool option"
  JobTemplate :: K8sJobSpec

record CronJob =
  ObjectMeta :: ObjectMeta
  Spec :: CronJobSpec

record ContainerStatus =
  Name :: string
  RestartCount :: int32

record Pod =
  ObjectMeta :: ObjectMeta
  ContainerStatuses :: "ContainerStatus list"

record K8sEvent =
  Type :: string
  Reason :: string
  Message :: string
  CreationTimestamp :: Time

text \<open>The zero value of \<^verbatim>\<open>metav1.ObjectMeta\<close>.\<close>

definition emptyObjectMeta :: ObjectMeta where
  "emptyObjectMeta =
     \<lparr>ObjectMeta.Name = [], Namespace = [], UID = [], Labels = Map.empty,
      Annotations = Map.empty, OwnerReferences = [], CreationTimestamp = 0\<rparr>"

subsection \<open>Platform projections (\<^verbatim>\<open>provision.Unit\<close>, \<^verbatim>\<open>event.Opts\<close>)\<close>

datatype Status = StatusError | StatusSucceeded | StatusStarted

record Unit =
  ID :: string
  Name :: string
  Status :: Status
  Restarts :: "int32 option"
  CreatedAt :: "Time option"

text \<open>
  The constants of the packages \<^verbatim>\<open>permission\<close> and \<^verbatim>\<open>event\<close> that the
  code names; their declarations are in other files.
\<close>

datatype PermissionScheme = PermJobRun | PermJobCreate | PermJobReadEvents
datatype TargetType = TargetTypeJob
datatype ContextType = CtxJob
datatype OwnerType = OwnerTypeInternal

record Target =
  Type :: TargetType
  Value :: string

record PermissionContext =
  CtxType :: ContextType
  Value :: string

record AllowedPermission =
  Scheme :: PermissionScheme
  Contexts :: "PermissionContext list"

record Opts =
  Kind :: PermissionScheme
  Target :: Target
  Allowed :: AllowedPermission
  RawOwner :: OwnerType
  Cancelable :: bool

section \<open>The orchestrator client and the other collaborators\<close>

text \<open>
  The code talks to the orchestrator through \<^verbatim>\<open>ClusterClient\<close>, an interface.
  Each call takes the orchestrator's state \<open>'s\<close> and returns its answer with the new
  state; nothing is assumed about what a call does. The first argument of every call is
  the namespace; a label selector is the label map it was rendered from.
\<close>

record 's ClusterClient =
  PoolNamespace :: "string \<Rightarrow> string"
  CronJobsCreate :: "string \<Rightarrow> CronJob \<Rightarrow> 's \<Rightarrow> (error + CronJob) \<times> 's"
  CronJobsGet :: "string \<Rightarrow> string \<Rightarrow> 's \<Rightarrow> (error + CronJob) \<times> 's"
  CronJobsUpdate :: "string \<Rightarrow> CronJob \<Rightarrow> 's \<Rightarrow> (error + CronJob) \<times> 's"
  CronJobsDelete :: "string \<Rightarrow> string \<Rightarrow> 's \<Rightarrow> error option \<times> 's"
  JobsCreate :: "string \<Rightarrow> K8sJob \<Rightarrow> 's \<Rightarrow> (error + K8sJob) \<times> 's"
  JobsList :: "string \<Rightarrow> labels \<Rightarrow> 's \<Rightarrow> (error + K8sJob list) \<times> 's"
  ServiceAccountsDelete :: "string \<Rightarrow> string \<Rightarrow> 's \<Rightarrow> error option \<times> 's"
  PodsList :: "string \<Rightarrow> labels \<Rightarrow> 's \<Rightarrow> (error + Pod list) \<times> 's"

text \<open>
  The functions of other files of the repository that \<^verbatim>\<open>job.go\<close> calls. Their
  code is not part of this development, so they are parameters:
  \<^verbatim>\<open>clusterForPool\<close>, \<^verbatim>\<open>ensureServiceAccount\<close> (which gets the client,
  the account's name, its labels, the namespace and the job's metadata),
  \<^verbatim>\<open>provision.ServiceAccountLabels\<close>, \<^verbatim>\<open>provision.JobLabels(...).ToLabels()\<close>,
  \<^verbatim>\<open>resourceRequirements\<close>, \<^verbatim>\<open>serviceAccountNameForJob\<close> and
  \<^verbatim>\<open>containersRestarts\<close> (the value behind the pointer it returns).
\<close>

record 's Collaborators =
  clusterForPool :: "string \<Rightarrow> error + 's ClusterClient"
  ensureServiceAccount ::
    "'s ClusterClient \<Rightarrow> string \<Rightarrow> labels \<Rightarrow> string \<Rightarrow> Metadata \<Rightarrow> 's \<Rightarrow> error option \<times> 's"
  ServiceAccountLabels :: "Job \<Rightarrow> labels"
  JobLabels :: "Job \<Rightarrow> labels"
  resourceRequirements :: "Job \<Rightarrow> 's ClusterClient \<Rightarrow> error + ResourceRequirements"
  serviceAccountNameForJob :: "Job \<Rightarrow> string"
  containersRestarts :: "ContainerStatus list \<Rightarrow> int32"

section \<open>The spec compiler\<close>

text \<open>
  \<^verbatim>\<open>strings.ReplaceAll(s, old, new)\<close>: the non-overlapping occurrences of
  \<open>old\<close> are replaced from the left. With an empty \<open>old\<close> Go inserts \<open>new\<close>
  before every UTF-8 sequence and at the end; the model does so before every byte, which
  is the same on ASCII, and the code never calls it with an empty \<open>old\<close>.
\<close>

function ReplaceAll :: "string \<Rightarrow> string \<Rightarrow> string \<Rightarrow> string" where
  "ReplaceAll s old new =
     (if old = [] then concat (map (\<lambda>c. new @ [c]) s) @ new
      else if s = [] then []
      else if take (length old) s = old then new @ ReplaceAll (drop (length old) s) old new
      else hd s # ReplaceAll (tl s) old new)"
  by pat_completeness auto
termination
  by (relation "measure (\<lambda>(s, old, new). length s)") auto

declare ReplaceAll.simps [simp del]

definition buildActiveDeadline :: "int64 option \<Rightarrow> int64 option" where
  "buildActiveDeadline activeDeadlineSeconds =
     (let defaultActiveDeadline = (60 * 60 :: int64)
      in if activeDeadlineSeconds = None \<or> activeDeadlineSeconds = Some 0
         then Some defaultActiveDeadline
         else activeDeadlineSeconds)"

text \<open>The two loops of \<^verbatim>\<open>buildJobSpec\<close> that append to \<^verbatim>\<open>envs\<close>.\<close>

fun appendEnvs :: "EnvVar list \<Rightarrow> EnvVar list \<Rightarrow> EnvVar list" where
  "appendEnvs envs [] = envs"
| "appendEnvs envs (env # rest) =
     appendEnvs
       (envs @ [\<lparr>EnvVar.Name = EnvVar.Name env,
                 Value = ReplaceAll (EnvVar.Value env) ''$'' ''$$''\<rparr>])
       rest"

definition buildJobSpec ::
  "'s Collaborators \<Rightarrow> Job \<Rightarrow> 's ClusterClient \<Rightarrow> labels \<Rightarrow> labels
     \<Rightarrow> error + K8sJobSpec" where
  "buildJobSpec co job client labels annotations =
     (let jSpec = Job.Spec job in
      case resourceRequirements co job client of
        Inl err \<Rightarrow> Inl err
      | Inr requirements \<Rightarrow>
          let envs = [];
              envs = appendEnvs envs (Envs jSpec);
              envs = appendEnvs envs (ServiceEnvs jSpec);
              imageURL = InternalRegistryImage (Container jSpec);
              imageURL = (if imageURL = [] then OriginalImageSrc (Container jSpec)
                          else imageURL)
          in Inr \<lparr>K8sJobSpec.Parallelism = JobSpec.Parallelism jSpec,
                  BackoffLimit = JobSpec.BackoffLimit jSpec,
                  Completions = JobSpec.Completions jSpec,
                  ActiveDeadlineSeconds =
                    buildActiveDeadline (JobSpec.ActiveDeadlineSeconds jSpec),
                  TTLSecondsAfterFinished = Some 86400,
                  Template =
                    \<lparr>PodTemplateSpec.ObjectMeta =
                       emptyObjectMeta\<lparr>Labels := labels, Annotations := annotations\<rparr>,
                     Spec =
                       \<lparr>RestartPolicy = ''OnFailure'',
                        Containers =
                          [\<lparr>K8sContainer.Name = ''job'',
                            Image = imageURL,
                            Command = ContainerInfo.Command (Container jSpec),
                            Resources = requirements,
                            Env = envs\<rparr>],
                        ServiceAccountName = serviceAccountNameForJob co job\<rparr>\<rparr>\<rparr>)"

section \<open>The metadata builder\<close>

fun customLabels :: "MetadataItem list \<Rightarrow> labels \<Rightarrow> labels" where
  "customLabels [] jobLabels = jobLabels"
| "customLabels (label # rest) jobLabels =
     (case jobLabels (MetadataItem.Name label) of
        Some _ \<Rightarrow> customLabels rest jobLabels
      | None \<Rightarrow>
          customLabels rest
            (jobLabels(MetadataItem.Name label \<mapsto> MetadataItem.Value label)))"

fun customAnnotations :: "MetadataItem list \<Rightarrow> labels \<Rightarrow> labels" where
  "customAnnotations [] jobAnnotations = jobAnnotations"
| "customAnnotations (a # rest) jobAnnotations =
     customAnnotations rest
       (jobAnnotations(MetadataItem.Name a \<mapsto> MetadataItem.Value a))"

definition buildMetadata :: "'s Collaborators \<Rightarrow> Job \<Rightarrow> labels \<times> labels" where
  "buildMetadata co job =
     (let jobLabels = JobLabels co job;
          customData = Job.Metadata job;
          jobLabels = customLabels (Metadata.Labels customData) jobLabels;
          jobAnnotations = Map.empty;
          jobAnnotations =
            customAnnotations (Metadata.Annotations (Job.Metadata job)) jobAnnotations
      in (jobLabels, jobAnnotations))"

section \<open>The lifecycle manager\<close>

definition buildCronjob ::
  "'s ClusterClient \<Rightarrow> Job \<Rightarrow> K8sJobSpec \<Rightarrow> labels \<Rightarrow> labels \<Rightarrow> 's
     \<Rightarrow> (error + string) \<times> 's" where
  "buildCronjob client job jobSpec labels annotations s =
     (let namespace = PoolNamespace client (Pool job) in
      case CronJobsCreate client namespace
             \<lparr>CronJob.ObjectMeta =
                emptyObjectMeta\<lparr>ObjectMeta.Name := Job.Name job, Namespace := namespace,
                                Labels := labels, Annotations := annotations\<rparr>,
              Spec = \<lparr>CronJobSpec.Schedule = JobSpec.Schedule (Job.Spec job),
                      Suspend = Some (Manual (Job.Spec job)),
                      JobTemplate = jobSpec\<rparr>\<rparr> s of
        (Inl err, s') \<Rightarrow> (Inl err, s')
      | (Inr k8sCronjob, s') \<Rightarrow> (Inr (ObjectMeta.Name (CronJob.ObjectMeta k8sCronjob)), s'))"

definition ensureServiceAccountForJob ::
  "'s Collaborators \<Rightarrow> 's ClusterClient \<Rightarrow> Job \<Rightarrow> 's \<Rightarrow> error option \<times> 's" where
  "ensureServiceAccountForJob co client job s =
     (let labels = ServiceAccountLabels co job;
          ns = PoolNamespace client (Pool job)
      in ensureServiceAccount co client (serviceAccountNameForJob co job) labels ns
           (Job.Metadata job) s)"

definition CreateJob :: "'s Collaborators \<Rightarrow> Job \<Rightarrow> 's \<Rightarrow> (error + string) \<times> 's" where
  "CreateJob co job s =
     (case clusterForPool co (Pool job) of
        Inl err \<Rightarrow> (Inl err, s)
      | Inr client \<Rightarrow>
          (case ensureServiceAccountForJob co client job s of
             (Some err, s1) \<Rightarrow> (Inl err, s1)
           | (None, s1) \<Rightarrow>
               (case buildMetadata co job of
                  (jobLabels, jobAnnotations) \<Rightarrow>
                    (case buildJobSpec co job client jobLabels jobAnnotations of
                       Inl err \<Rightarrow> (Inl err, s1)
                     | Inr jobSpec \<Rightarrow>
                         buildCronjob client job jobSpec jobLabels jobAnnotations s1))))"

definition UpdateJob :: "'s Collaborators \<Rightarrow> Job \<Rightarrow> 's \<Rightarrow> error option \<times> 's" where
  "UpdateJob co job s =
     (case clusterForPool co (Pool job) of
        Inl err \<Rightarrow> (Some err, s)
      | Inr client \<Rightarrow>
          (case ensureServiceAccountForJob co client job s of
             (Some err, s1) \<Rightarrow> (Some err, s1)
           | (None, s1) \<Rightarrow>
               (case buildMetadata co job of
                  (jobLabels, jobAnnotations) \<Rightarrow>
                    (case buildJobSpec co job client jobLabels jobAnnotations of
                       Inl err \<Rightarrow> (Some err, s1)
                     | Inr jobSpec \<Rightarrow>
                         (let namespace = PoolNamespace client (Pool job) in
                          case CronJobsUpdate client namespace
                                 \<lparr>CronJob.ObjectMeta =
                                    emptyObjectMeta\<lparr>ObjectMeta.Name := Job.Name job,
                                                    Namespace := namespace,
                                                    Labels := jobLabels,
                                                    Annotations := jobAnnotations\<rparr>,
                                  Spec = \<lparr>CronJobSpec.Schedule = JobSpec.Schedule (Job.Spec job),
                                          Suspend = Some (Manual (Job.Spec job)),
                                          JobTemplate = jobSpec\<rparr>\<rparr> s1 of
                            (Inl err, s2) \<Rightarrow> (Some err, s2)
                          | (Inr _, s2) \<Rightarrow> (None, s2))))))"

definition DestroyJob :: "'s Collaborators \<Rightarrow> Job \<Rightarrow> 's \<Rightarrow> error option \<times> 's" where
  "DestroyJob co job s =
     (case clusterForPool co (Pool job) of
        Inl err \<Rightarrow> (Some err, s)
      | Inr client \<Rightarrow>
          (let namespace = PoolNamespace client (Pool job) in
           case ServiceAccountsDelete client namespace (serviceAccountNameForJob co job) s of
             (Some err, s1) \<Rightarrow>
               if \<not> IsNotFound err then (Some err, s1)
               else CronJobsDelete client namespace (Job.Name job) s1
           | (None, s1) \<Rightarrow> CronJobsDelete client namespace (Job.Name job) s1))"

section \<open>The manual trigger\<close>

text \<open>
  \<^verbatim>\<open>%d\<close> of \<^verbatim>\<open>fmt.Sprintf\<close>: the decimal digits, after a minus sign for a
  negative number.
\<close>

fun FormatUint :: "nat \<Rightarrow> string" where
  "FormatUint n =
     (if n < 10 then [''0123456789'' ! n]
      else FormatUint (n div 10) @ [''0123456789'' ! (n mod 10)])"

declare FormatUint.simps [simp del]

definition FormatInt :: "int \<Rightarrow> string" where
  "FormatInt i = (if i < 0 then CHR ''-'' # FormatUint (nat (- i)) else FormatUint (nat i))"

text \<open>Go's \<^verbatim>\<open>/\<close> on \<^verbatim>\<open>int64\<close> truncates towards zero.\<close>

definition int64_quo :: "int64 \<Rightarrow> int64 \<Rightarrow> int64" where
  "int64_quo a b = word_of_int (sint a sdiv sint b)"

text \<open>
  \<^verbatim>\<open>time.Now().Unix()\<close> is the argument \<open>unixNow\<close>: the clock is read once a
  call.
\<close>

definition getManualJobName :: "int64 \<Rightarrow> string \<Rightarrow> string" where
  "getManualJobName unixNow job =
     job @ ''-manual-job-'' @ FormatInt (sint (int64_quo unixNow 60))"

definition TriggerCron ::
  "'s Collaborators \<Rightarrow> int64 \<Rightarrow> string \<Rightarrow> string \<Rightarrow> 's \<Rightarrow> error option \<times> 's" where
  "TriggerCron co unixNow name pool s =
     (case clusterForPool co pool of
        Inl err \<Rightarrow> (Some err, s)
      | Inr client \<Rightarrow>
          (let namespace = PoolNamespace client pool in
           case CronJobsGet client namespace name s of
             (Inl err, s1) \<Rightarrow> (Some err, s1)
           | (Inr cron, s1) \<Rightarrow>
               (let meta = CronJob.ObjectMeta cron;
                    cronChild =
                      \<lparr>K8sJob.ObjectMeta =
                         emptyObjectMeta\<lparr>Namespace := Namespace meta,
                                         Labels := Labels meta,
                                         Annotations := Annotations meta\<rparr>,
                       Spec = JobTemplate (CronJob.Spec cron),
                       Status = \<lparr>Failed = 0, Succeeded = 0\<rparr>\<rparr>;
                    cronChild = cronChild\<lparr>K8sJob.ObjectMeta :=
                      (K8sJob.ObjectMeta cronChild)\<lparr>OwnerReferences :=
                        [\<lparr>OwnerReference.Name = ObjectMeta.Name meta,
                          Kind = ''CronJob'',
                          UID = ObjectMeta.UID meta,
                          APIVersion = ''batch/v1''\<rparr>]\<rparr>\<rparr>;
                    cronChild = cronChild\<lparr>K8sJob.ObjectMeta :=
                      (K8sJob.ObjectMeta cronChild)\<lparr>ObjectMeta.Name :=
                        getManualJobName unixNow (ObjectMeta.Name meta)\<rparr>\<rparr>;
                    cronChild = cronChild\<lparr>K8sJob.ObjectMeta :=
                      (K8sJob.ObjectMeta cronChild)\<lparr>Annotations :=
                        (Annotations (K8sJob.ObjectMeta cronChild))
                          (''cronjob.kubernetes.io/instantiate'' \<mapsto> ''manual'')\<rparr>\<rparr>
                in case JobsCreate client (Namespace meta) cronChild s1 of
                     (Inl err, s2) \<Rightarrow> (Some err, s2)
                   | (Inr _, s2) \<Rightarrow> (None, s2))))"

section \<open>The reconciler\<close>

definition getPodsForJob ::
  "'s ClusterClient \<Rightarrow> K8sJob \<Rightarrow> 's \<Rightarrow> (error + Pod list) \<times> 's" where
  "getPodsForJob client job s =
     (case PodsList client (Namespace (K8sJob.ObjectMeta job))
             [''job-name'' \<mapsto> ObjectMeta.Name (K8sJob.ObjectMeta job)] s of
        (Inl err, s') \<Rightarrow> (Inl err, s')
      | (Inr pods, s') \<Rightarrow> (Inr pods, s'))"

fun podsRestarts :: "'s Collaborators \<Rightarrow> Pod list \<Rightarrow> int32 \<Rightarrow> int32" where
  "podsRestarts co [] restarts = restarts"
| "podsRestarts co (pod # rest) restarts =
     podsRestarts co rest (restarts + containersRestarts co (ContainerStatuses pod))"

fun jobsToJobUnitsLoop ::
  "'s Collaborators \<Rightarrow> 's ClusterClient \<Rightarrow> K8sJob list \<Rightarrow> Unit list \<Rightarrow> 's
     \<Rightarrow> (error + Unit list) \<times> 's" where
  "jobsToJobUnitsLoop co client [] units s = (Inr units, s)"
| "jobsToJobUnitsLoop co client (k8sJob # rest) units s =
     (case getPodsForJob client k8sJob s of
        (Inl err, s') \<Rightarrow> (Inl err, s')
      | (Inr pods, s') \<Rightarrow>
          (let restarts = podsRestarts co pods 0;
               status =
                 (if 0 < sint (Failed (K8sJob.Status k8sJob)) then StatusError
                  else if 0 < sint (Succeeded (K8sJob.Status k8sJob)) then StatusSucceeded
                  else StatusStarted);
               createdAt = ObjectMeta.CreationTimestamp (K8sJob.ObjectMeta k8sJob)
           in jobsToJobUnitsLoop co client rest
                (units @
                 [\<lparr>ID = ObjectMeta.Name (K8sJob.ObjectMeta k8sJob),
                   Name = ObjectMeta.Name (K8sJob.ObjectMeta k8sJob),
                   Status = status,
                   Restarts = Some restarts,
                   CreatedAt = Some createdAt\<rparr>])
                s'))"

definition jobsToJobUnits ::
  "'s Collaborators \<Rightarrow> 's ClusterClient \<Rightarrow> K8sJob list \<Rightarrow> Job \<Rightarrow> 's
     \<Rightarrow> (error + Unit list) \<times> 's" where
  "jobsToJobUnits co client k8sJobs job s =
     (if length k8sJobs = 0 then (Inr [], s)
      else jobsToJobUnitsLoop co client k8sJobs [] s)"

definition JobUnits :: "'s Collaborators \<Rightarrow> Job \<Rightarrow> 's \<Rightarrow> (error + Unit list) \<times> 's" where
  "JobUnits co job s =
     (case clusterForPool co (Pool job) of
        Inl err \<Rightarrow> (Inl err, s)
      | Inr client \<Rightarrow>
          (let jobLabels = JobLabels co job in
           case JobsList client (PoolNamespace client (Pool job)) jobLabels s of
             (Inl err, s1) \<Rightarrow> (Inl err, s1)
           | (Inr k8sJobs, s1) \<Rightarrow> jobsToJobUnits co client k8sJobs job s1))"

section \<open>The event bridge\<close>

text \<open>
  \<^verbatim>\<open>createJobEvent\<close> returns nothing; what it does to the audit sink is its
  result here: nothing at all (\<open>Ignored\<close>), a call of \<^verbatim>\<open>event.New\<close> that failed
  (\<open>Dropped\<close>, with the descriptor and the error), or a call that gave an event on which
  \<^verbatim>\<open>DoneCustomData\<close> was called with an error or none and the custom data
  (\<open>Done\<close>). \<^verbatim>\<open>event.New\<close> and the rendering of a timestamp are arguments.
\<close>

datatype 'e JobEventOutcome =
    Ignored
  | Dropped Opts error
  | Done Opts 'e "error option" labels

fun realJobOwnerLoop :: "OwnerReference list \<Rightarrow> string \<Rightarrow> string" where
  "realJobOwnerLoop [] realJobOwner = realJobOwner"
| "realJobOwnerLoop (owner # rest) realJobOwner =
     realJobOwnerLoop rest
       (if OwnerReference.Kind owner = ''CronJob'' then OwnerReference.Name owner
        else realJobOwner)"

definition createJobEvent ::
  "(Opts \<Rightarrow> error + 'e) \<Rightarrow> (Time \<Rightarrow> string) \<Rightarrow> K8sJob \<Rightarrow> K8sEvent \<Rightarrow> 'e JobEventOutcome" where
  "createJobEvent eventNew timeString job evt =
     (case (if Reason evt = ''Completed'' then Some (PermJobRun, None)
            else if Reason evt = ''BackoffLimitExceeded''
              then Some (PermJobRun, Some (Failure (''job failed: '' @ Message evt)))
            else if Reason evt = ''SuccessfulCreate'' then Some (PermJobCreate, None)
            else None) of
        None \<Rightarrow> Ignored
      | Some (kind, evtErr) \<Rightarrow>
          (let realJobOwner = ObjectMeta.Name (K8sJob.ObjectMeta job);
               realJobOwner =
                 realJobOwnerLoop (OwnerReferences (K8sJob.ObjectMeta job)) realJobOwner;
               opts =
                 \<lparr>Kind = kind,
                  Target = \<lparr>Target.Type = TargetTypeJob, Value = realJobOwner\<rparr>,
                  Allowed =
                    \<lparr>Scheme = PermJobReadEvents,
                     Contexts = [\<lparr>CtxType = CtxJob, Value = realJobOwner\<rparr>]\<rparr>,
                  RawOwner = OwnerTypeInternal,
                  Cancelable = False\<rparr>
           in case eventNew opts of
                Inl err \<Rightarrow> Dropped opts err
              | Inr e \<Rightarrow>
                  (let customData =
                         [''job-name'' \<mapsto> ObjectMeta.Name (K8sJob.ObjectMeta job),
                          ''job-controller'' \<mapsto> realJobOwner,
                          ''event-type'' \<mapsto> K8sEvent.Type evt,
                          ''event-reason'' \<mapsto> Reason evt,
                          ''message'' \<mapsto> Message evt,
                          ''cluster-start-time'' \<mapsto>
                            timeString (K8sEvent.CreationTimestamp evt)]
                   in Done opts e evtErr customData)))"

section \<open>An orchestrator in memory\<close>

text \<open>
  A small orchestrator for the closed instances below: it keeps service accounts, scheduled
  jobs, executions and pods by namespace and name, refuses to create a name that exists
  and to read, update or delete one that does not. Listing executions returns those of the
  namespace whose labels hold every pair of the selector; listing pods returns those of the
  namespace whose \<^verbatim>\<open>job-name\<close> label is the selector's.
\<close>

record Cluster =
  serviceAccounts :: "(string \<times> string) list"
  cronJobs :: "CronJob list"
  jobs :: "K8sJob list"
  pods :: "Pod list"

definition isCronJob :: "string \<Rightarrow> string \<Rightarrow> CronJob \<Rightarrow> bool" where
  "isCronJob ns name x \<longleftrightarrow>
     Namespace (CronJob.ObjectMeta x) = ns \<and> ObjectMeta.Name (CronJob.ObjectMeta x) = name"

definition isJob :: "string \<Rightarrow> string \<Rightarrow> K8sJob \<Rightarrow> bool" where
  "isJob ns name x \<longleftrightarrow>
     Namespace (K8sJob.ObjectMeta x) = ns \<and> ObjectMeta.Name (K8sJob.ObjectMeta x) = name"

definition memoryClient :: "Cluster ClusterClient" where
  "memoryClient =
     \<lparr>PoolNamespace = (\<lambda>pool. ''tsuru-'' @ pool),
      CronJobsCreate = (\<lambda>ns cj c.
        let name = ObjectMeta.Name (CronJob.ObjectMeta cj) in
        if list_ex (isCronJob ns name) (cronJobs c) then (Inl (AlreadyExists name), c)
        else (Inr cj, c\<lparr>cronJobs := cronJobs c @ [cj]\<rparr>)),
      CronJobsGet = (\<lambda>ns name c.
        case find (isCronJob ns name) (cronJobs c) of
          None \<Rightarrow> (Inl (NotFound name), c)
        | Some cj \<Rightarrow> (Inr cj, c)),
      CronJobsUpdate = (\<lambda>ns cj c.
        let name = ObjectMeta.Name (CronJob.ObjectMeta cj) in
        if list_ex (isCronJob ns name) (cronJobs c)
        then (Inr cj, c\<lparr>cronJobs := map (\<lambda>x. if isCronJob ns name x then cj else x) (cronJobs c)\<rparr>)
        else (Inl (NotFound name), c)),
      CronJobsDelete = (\<lambda>ns name c.
        if list_ex (isCronJob ns name) (cronJobs c)
        then (None, c\<lparr>cronJobs := filter (\<lambda>x. \<not> isCronJob ns name x) (cronJobs c)\<rparr>)
        else (Some (NotFound name), c)),
      JobsCreate = (\<lambda>ns j c.
        let name = ObjectMeta.Name (K8sJob.ObjectMeta j) in
        if list_ex (isJob ns name) (jobs c) then (Inl (AlreadyExists name), c)
        else (Inr j, c\<lparr>jobs := jobs c @ [j]\<rparr>)),
      JobsList = (\<lambda>ns selector c.
        (Inr (filter (\<lambda>j. Namespace (K8sJob.ObjectMeta j) = ns
                        \<and> selector \<subseteq>\<^sub>m Labels (K8sJob.ObjectMeta j))
                (jobs c)), c)),
      ServiceAccountsDelete = (\<lambda>ns name c.
        if (ns, name) \<in> set (serviceAccounts c)
        then (None, c\<lparr>serviceAccounts := removeAll (ns, name) (serviceAccounts c)\<rparr>)
        else (Some (NotFound name), c)),
      PodsList = (\<lambda>ns selector c.
        (Inr (filter (\<lambda>p. Namespace (Pod.ObjectMeta p) = ns
                        \<and> Labels (Pod.ObjectMeta p) ''job-name'' = selector ''job-name'')
                (pods c)), c))\<rparr>"

text \<open>
  Modelled from the spec: the identity provisioner \<^verbatim>\<open>ensureServiceAccount\<close> is in
  another file of the repository. The spec says of it: "ensure identity exists (fails the
  whole operation if identity provisioning fails)", with the contract
  "(client, name, labels, namespace, metadata) -> error". On the orchestrator in memory it
  leaves an existing account alone and creates a missing one.
\<close>

definition memoryEnsureServiceAccount ::
  "Cluster ClusterClient \<Rightarrow> string \<Rightarrow> labels \<Rightarrow> string \<Rightarrow> Metadata \<Rightarrow> Cluster
     \<Rightarrow> error option \<times> Cluster" where
  "memoryEnsureServiceAccount client name labels ns metadata c =
     (if (ns, name) \<in> set (serviceAccounts c) then (None, c)
      else (None, c\<lparr>serviceAccounts := serviceAccounts c @ [(ns, name)]\<rparr>))"

text \<open>
  Collaborators for the orchestrator in memory. The service account of a job is named
  after the job; the platform-derived labels are the job's name and pool; resource
  resolution fails when the argument \<open>resolved\<close> is an error.
\<close>

definition memoryCollaborators ::
  "(error + ResourceRequirements) \<Rightarrow> Cluster Collaborators" where
  "memoryCollaborators resolved =
     \<lparr>clusterForPool = (\<lambda>pool. Inr memoryClient),
      ensureServiceAccount = memoryEnsureServiceAccount,
      ServiceAccountLabels = (\<lambda>job. [''tsuru.io/job-name'' \<mapsto> Job.Name job]),
      JobLabels = (\<lambda>job. [''tsuru.io/job-name'' \<mapsto> Job.Name job,
                          ''tsuru.io/job-pool'' \<mapsto> Pool job]),
      resourceRequirements = (\<lambda>job client. resolved),
      serviceAccountNameForJob = (\<lambda>job. ''job-'' @ Job.Name job),
      containersRestarts = (\<lambda>statuses. sum_list (map RestartCount statuses))\<rparr>"

section \<open>Concrete inputs\<close>

text \<open>
  A job \<^verbatim>\<open>foo\<close> of pool \<^verbatim>\<open>p1\<close>: no active deadline, two variables of its own
  and one injected by a service, three custom labels (two with the same key, one with a
  platform key) and two custom annotations with the same key.
\<close>

definition exampleJob :: Job where
  "exampleJob =
     \<lparr>Job.Name = ''foo'', Pool = ''p1'',
      Spec =
        \<lparr>JobSpec.Completions = None, Parallelism = None, ActiveDeadlineSeconds = None,
         BackoffLimit = Some 3, Schedule = ''*/5 * * * *'', Manual = False,
         Container =
           \<lparr>InternalRegistryImage = [], OriginalImageSrc = ''busybox'',
            Command = [''report'']\<rparr>,
         Envs = [\<lparr>EnvVar.Name = ''PRICE'', Value = ''$5''\<rparr>,
                 \<lparr>EnvVar.Name = ''HOME'', Value = ''/root''\<rparr>],
         ServiceEnvs = [\<lparr>EnvVar.Name = ''DB_PASSWORD'', Value = ''a$b$$c''\<rparr>]\<rparr>,
      Metadata =
        \<lparr>Metadata.Labels =
           [\<lparr>MetadataItem.Name = ''team'', Value = ''ops''\<rparr>,
            \<lparr>MetadataItem.Name = ''tsuru.io/job-name'', Value = ''other''\<rparr>,
            \<lparr>MetadataItem.Name = ''team'', Value = ''dev''\<rparr>],
         Annotations =
           [\<lparr>MetadataItem.Name = ''note'', Value = ''x''\<rparr>,
            \<lparr>MetadataItem.Name = ''note'', Value = ''y''\<rparr>]\<rparr>\<rparr>"

text \<open>The same job with custom labels and annotations of distinct keys.\<close>

definition distinctJob :: Job where
  "distinctJob =
     exampleJob
       \<lparr>Metadata :=
          \<lparr>Metadata.Labels =
             [\<lparr>MetadataItem.Name = ''team'', Value = ''ops''\<rparr>,
              \<lparr>MetadataItem.Name = ''tsuru.io/job-name'', Value = ''other''\<rparr>,
              \<lparr>MetadataItem.Name = ''tier'', Value = ''batch''\<rparr>],
           Annotations =
             [\<lparr>MetadataItem.Name = ''note'', Value = ''x''\<rparr>,
              \<lparr>MetadataItem.Name = ''owner'', Value = ''y''\<rparr>]\<rparr>\<rparr>"

definition exampleRequirements :: ResourceRequirements where
  "exampleRequirements = \<lparr>Limits = [(''cpu'', ''100m'')], Requests = []\<rparr>"

text \<open>What \<^verbatim>\<open>exampleJob\<close> compiles to, with no labels and no annotations.\<close>

definition exampleJobSpec :: K8sJobSpec where
  "exampleJobSpec =
     \<lparr>K8sJobSpec.Parallelism = None, BackoffLimit = Some 3, Completions = None,
      ActiveDeadlineSeconds = Some 3600, TTLSecondsAfterFinished = Some 86400,
      Template =
        \<lparr>PodTemplateSpec.ObjectMeta = emptyObjectMeta,
         Spec =
           \<lparr>RestartPolicy = ''OnFailure'',
            Containers =
              [\<lparr>K8sContainer.Name = ''job'', Image = ''busybox'', Command = [''report''],
                Resources = exampleRequirements,
                Env = [\<lparr>EnvVar.Name = ''PRICE'', Value = ''$$5''\<rparr>,
                       \<lparr>EnvVar.Name = ''HOME'', Value = ''/root''\<rparr>,
                       \<lparr>EnvVar.Name = ''DB_PASSWORD'', Value = ''a$$b$$$$c''\<rparr>]\<rparr>],
            ServiceAccountName = ''job-foo''\<rparr>\<rparr>\<rparr>"

definition emptyCluster :: Cluster where
  "emptyCluster = \<lparr>serviceAccounts = [], cronJobs = [], jobs = [], pods = []\<rparr>"

text \<open>Collaborators whose orchestrator answers every delete of an identity with a failure.\<close>

definition brokenCollaborators :: "Cluster Collaborators" where
  "brokenCollaborators =
     (memoryCollaborators (Inr exampleRequirements))
       \<lparr>clusterForPool := (\<lambda>pool. Inr (memoryClient
          \<lparr>ServiceAccountsDelete := (\<lambda>ns name c. (Some (Failure ''timeout''), c))\<rparr>))\<rparr>"

text \<open>
  Three executions of \<^verbatim>\<open>foo\<close> with their counters, labelled as executions of that
  job, an execution of another job of the pool, and a pod of the first.
\<close>

definition exampleExecution :: "string \<Rightarrow> int32 \<Rightarrow> int32 \<Rightarrow> K8sJob" where
  "exampleExecution name failed succeeded =
     \<lparr>K8sJob.ObjectMeta =
        emptyObjectMeta\<lparr>ObjectMeta.Name := name, Namespace := ''tsuru-p1'',
                        Labels := [''tsuru.io/job-name'' \<mapsto> ''foo'',
                                   ''tsuru.io/job-pool'' \<mapsto> ''p1'']\<rparr>,
      Spec =
        \<lparr>K8sJobSpec.Parallelism = None, BackoffLimit = None, Completions = None,
         ActiveDeadlineSeconds = None, TTLSecondsAfterFinished = None,
         Template =
           \<lparr>PodTemplateSpec.ObjectMeta = emptyObjectMeta,
            Spec = \<lparr>RestartPolicy = [], Containers = [], ServiceAccountName = []\<rparr>\<rparr>\<rparr>,
      Status = \<lparr>Failed = failed, Succeeded = succeeded\<rparr>\<rparr>"

definition otherExecution :: K8sJob where
  "otherExecution =
     (exampleExecution ''bar-1'' 1 0)
       \<lparr>K8sJob.ObjectMeta :=
          emptyObjectMeta\<lparr>ObjectMeta.Name := ''bar-1'', Namespace := ''tsuru-p1'',
                          Labels := [''tsuru.io/job-name'' \<mapsto> ''bar'',
                                     ''tsuru.io/job-pool'' \<mapsto> ''p1'']\<rparr>\<rparr>"

definition exampleUnitsCluster :: Cluster where
  "exampleUnitsCluster =
     \<lparr>serviceAccounts = [], cronJobs = [],
      jobs = [exampleExecution ''foo-1'' 1 1, otherExecution, exampleExecution ''foo-2'' 0 1,
              exampleExecution ''foo-3'' 0 0],
      pods =
        [\<lparr>Pod.ObjectMeta =
            emptyObjectMeta\<lparr>ObjectMeta.Name := ''foo-1-abcde'', Namespace := ''tsuru-p1'',
                            Labels := [''job-name'' \<mapsto> ''foo-1'']\<rparr>,
          ContainerStatuses = [\<lparr>ContainerStatus.Name = ''job'', RestartCount = 2\<rparr>]\<rparr>]\<rparr>"

text \<open>The units that \<^verbatim>\<open>JobUnits\<close> is to report for them.\<close>

definition exampleUnits :: "Unit list" where
  "exampleUnits =
     [\<lparr>ID = ''foo-1'', Name = ''foo-1'', Status = StatusError, Restarts = Some 2,
       CreatedAt = Some 0\<rparr>,
      \<lparr>ID = ''foo-2'', Name = ''foo-2'', Status = StatusSucceeded, Restarts = Some 0,
       CreatedAt = Some 0\<rparr>,
      \<lparr>ID = ''foo-3'', Name = ''foo-3'', Status = StatusStarted, Restarts = Some 0,
       CreatedAt = Some 0\<rparr>]"

text \<open>
  The orchestrator after \<^verbatim>\<open>CreateJob\<close> of the example job on the empty one, and
  after a manual trigger of its schedule at Unix time 120.
\<close>

definition scheduledCluster :: Cluster where
  "scheduledCluster =
     snd (CreateJob (memoryCollaborators (Inr exampleRequirements)) exampleJob emptyCluster)"

definition triggeredCluster :: Cluster where
  "triggeredCluster =
     snd (TriggerCron (memoryCollaborators (Inr exampleRequirements)) 120 ''foo'' ''p1''
            scheduledCluster)"

text \<open>A lifecycle event, and an execution owned by the schedule \<^verbatim>\<open>foo\<close>.\<close>

definition exampleEvent :: "string \<Rightarrow> K8sEvent" where
  "exampleEvent reason =
     \<lparr>K8sEvent.Type = ''Normal'', Reason = reason, Message = ''pod failed'',
      CreationTimestamp = 0\<rparr>"

definition ownedExecution :: K8sJob where
  "ownedExecution =
     (exampleExecution ''foo-manual-job-2'' 0 0)
       \<lparr>K8sJob.ObjectMeta :=
          emptyObjectMeta
            \<lparr>ObjectMeta.Name := ''foo-manual-job-2'', Namespace := ''tsuru-p1'',
             OwnerReferences :=
               [\<lparr>OwnerReference.Name = ''foo'', Kind = ''CronJob'', UID = ''u1'',
                 APIVersion = ''batch/v1''\<rparr>]\<rparr>\<rparr>"

definition exampleTimeString :: "Time \<Rightarrow> string" where
  "exampleTimeString t = ''1970-01-01 00:00:00 +0000 UTC''"

text \<open>An audit sink that accepts every descriptor, and one that rejects every one.\<close>

definition acceptingSink :: "Opts \<Rightarrow> error + Opts" where
  "acceptingSink opts = Inr opts"

definition rejectingSink :: "Opts \<Rightarrow> error + Opts" where
  "rejectingSink opts = Inl (Failure ''event store down'')"

section \<open>Properties of the spec compiler\<close>

lemma ReplaceAll_dollar_Nil: "ReplaceAll [] ''$'' ''$$'' = []"
  by (simp add: ReplaceAll.simps)

lemma ReplaceAll_dollar_Cons:
  "ReplaceAll (c # s) ''$'' ''$$'' =
     (if c = CHR ''$'' then ''$$'' else [c]) @ ReplaceAll s ''$'' ''$$''"
  by (subst ReplaceAll.simps) simp

lemma ReplaceAll_dollar:
  "ReplaceAll s ''$'' ''$$'' = concat (map (\<lambda>c. if c = CHR ''$'' then ''$$'' else [c]) s)"
  by (induction s) (simp_all add: ReplaceAll_dollar_Nil ReplaceAll_dollar_Cons)

lemma ReplaceAll_no_dollar:
  "CHR ''$'' \<notin> set s \<Longrightarrow> ReplaceAll s ''$'' ''$$'' = s"
  by (induction s) (auto simp: ReplaceAll_dollar_Nil ReplaceAll_dollar_Cons)

lemma appendEnvs_map:
  "appendEnvs envs xs =
     envs @ map (\<lambda>env. \<lparr>EnvVar.Name = EnvVar.Name env,
                        Value = ReplaceAll (EnvVar.Value env) ''$'' ''$$''\<rparr>) xs"
  by (induction xs arbitrary: envs) simp_all

lemma buildJobSpec_Inr:
  "buildJobSpec co job client labels annotations = Inr spec \<Longrightarrow>
     \<exists>requirements. resourceRequirements co job client = Inr requirements \<and>
       spec = \<lparr>K8sJobSpec.Parallelism = JobSpec.Parallelism (Job.Spec job),
                  BackoffLimit = JobSpec.BackoffLimit (Job.Spec job),
                  Completions = JobSpec.Completions (Job.Spec job),
                  ActiveDeadlineSeconds =
                    buildActiveDeadline (JobSpec.ActiveDeadlineSeconds (Job.Spec job)),
                  TTLSecondsAfterFinished = Some 86400,
                  Template =
                    \<lparr>PodTemplateSpec.ObjectMeta =
                       emptyObjectMeta\<lparr>Labels := labels, Annotations := annotations\<rparr>,
                     Spec =
                       \<lparr>RestartPolicy = ''OnFailure'',
                        Containers =
                          [\<lparr>K8sContainer.Name = ''job'',
                            Image = (if InternalRegistryImage (Container (Job.Spec job)) = []
                                     then OriginalImageSrc (Container (Job.Spec job))
                                     else InternalRegistryImage (Container (Job.Spec job))),
                            Command = ContainerInfo.Command (Container (Job.Spec job)),
                            Resources = requirements,
                            Env = appendEnvs (appendEnvs [] (Envs (Job.Spec job)))
                                    (ServiceEnvs (Job.Spec job))\<rparr>],
                        ServiceAccountName = serviceAccountNameForJob co job\<rparr>\<rparr>\<rparr>"
  by (auto simp: buildJobSpec_def Let_def split: sum.splits)

lemma buildJobSpec_ActiveDeadline:
  assumes "buildJobSpec co job client labels annotations = Inr spec"
  shows "K8sJobSpec.ActiveDeadlineSeconds spec =
           buildActiveDeadline (JobSpec.ActiveDeadlineSeconds (Job.Spec job))"
  using buildJobSpec_Inr [OF assms] by auto

lemma example_compiles:
  "buildJobSpec (memoryCollaborators (Inr exampleRequirements)) exampleJob memoryClient
      Map.empty Map.empty = Inr exampleJobSpec"
  by (simp add: buildJobSpec_def memoryCollaborators_def exampleJob_def exampleJobSpec_def
        emptyObjectMeta_def ReplaceAll_dollar buildActiveDeadline_def)

text \<open>
  C2. An active deadline that is unset or zero compiles to 3600 seconds and any other
  value passes through unchanged; defaulting an already defaulted value changes nothing;
  and the deadline of a compiled spec is this function of the job's deadline alone.
\<close>

theorem active_deadline_default:
  "buildActiveDeadline None = Some 3600 \<and>
   buildActiveDeadline (Some 0) = Some 3600 \<and>
   (d \<noteq> 0 \<longrightarrow> buildActiveDeadline (Some d) = Some d) \<and>
   buildActiveDeadline (buildActiveDeadline x) = buildActiveDeadline x \<and>
   (buildJobSpec co job client labels annotations = Inr spec \<longrightarrow>
      K8sJobSpec.ActiveDeadlineSeconds spec =
        (if JobSpec.ActiveDeadlineSeconds (Job.Spec job) = None
            \<or> JobSpec.ActiveDeadlineSeconds (Job.Spec job) = Some 0
         then Some 3600 else JobSpec.ActiveDeadlineSeconds (Job.Spec job)))"
proof -
  have "buildJobSpec co job client labels annotations = Inr spec \<Longrightarrow>
      K8sJobSpec.ActiveDeadlineSeconds spec =
        (if JobSpec.ActiveDeadlineSeconds (Job.Spec job) = None
            \<or> JobSpec.ActiveDeadlineSeconds (Job.Spec job) = Some 0
         then Some 3600 else JobSpec.ActiveDeadlineSeconds (Job.Spec job))"
    by (simp add: buildJobSpec_ActiveDeadline buildActiveDeadline_def)
  then show ?thesis
    by (auto simp: buildActiveDeadline_def)
qed

theorem active_deadline_default_witness:
  "(7 :: int64) \<noteq> 0 \<and> buildActiveDeadline (Some 7) = Some 7 \<and>
   buildJobSpec (memoryCollaborators (Inr exampleRequirements)) exampleJob memoryClient
      Map.empty Map.empty = Inr exampleJobSpec \<and>
   JobSpec.ActiveDeadlineSeconds (Job.Spec exampleJob) = None \<and>
   K8sJobSpec.ActiveDeadlineSeconds exampleJobSpec = Some 3600"
  using active_deadline_default
          [where d = 7 and co = "memoryCollaborators (Inr exampleRequirements)"
             and job = exampleJob and client = memoryClient and labels = Map.empty
             and annotations = Map.empty and spec = exampleJobSpec]
    example_compiles
  by (simp add: exampleJob_def)

text \<open>
  C3. The variables of the compiled container are the job's own and the service-injected
  ones, each with every \<^verbatim>\<open>$\<close> of its value doubled; a variable whose value has no
  \<^verbatim>\<open>$\<close> is there unchanged.
\<close>

theorem env_values_escaped:
  assumes "buildJobSpec co job client labels annotations = Inr spec"
  shows "\<exists>c. Containers (PodTemplateSpec.Spec (Template spec)) = [c] \<and>
     set (Env c) =
       (\<lambda>env. \<lparr>EnvVar.Name = EnvVar.Name env,
                Value = concat (map (\<lambda>ch. if ch = CHR ''$'' then ''$$'' else [ch])
                                 (EnvVar.Value env))\<rparr>)
         ` (set (Envs (Job.Spec job)) \<union> set (ServiceEnvs (Job.Spec job))) \<and>
     (\<forall>env \<in> set (Envs (Job.Spec job)) \<union> set (ServiceEnvs (Job.Spec job)).
        CHR ''$'' \<notin> set (EnvVar.Value env) \<longrightarrow>
          \<lparr>EnvVar.Name = EnvVar.Name env, Value = EnvVar.Value env\<rparr> \<in> set (Env c))"
proof -
  from buildJobSpec_Inr [OF assms] obtain c where
    c: "Containers (PodTemplateSpec.Spec (Template spec)) = [c]" and
    env: "Env c = map (\<lambda>env. \<lparr>EnvVar.Name = EnvVar.Name env,
                        Value = ReplaceAll (EnvVar.Value env) ''$'' ''$$''\<rparr>)
        (Envs (Job.Spec job) @ ServiceEnvs (Job.Spec job))"
    by (auto simp: appendEnvs_map)
  have 1: "set (Env c) =
       (\<lambda>env. \<lparr>EnvVar.Name = EnvVar.Name env,
                Value = concat (map (\<lambda>ch. if ch = CHR ''$'' then ''$$'' else [ch])
                                 (EnvVar.Value env))\<rparr>)
         ` (set (Envs (Job.Spec job)) \<union> set (ServiceEnvs (Job.Spec job)))"
    unfolding env by (simp add: ReplaceAll_dollar image_Un)
  have 2: "\<lparr>EnvVar.Name = EnvVar.Name env, Value = EnvVar.Value env\<rparr> \<in> set (Env c)"
    if "env \<in> set (Envs (Job.Spec job)) \<union> set (ServiceEnvs (Job.Spec job))"
      and "CHR ''$'' \<notin> set (EnvVar.Value env)" for env
  proof -
    have "\<lparr>EnvVar.Name = EnvVar.Name env,
            Value = ReplaceAll (EnvVar.Value env) ''$'' ''$$''\<rparr> \<in> set (Env c)"
      unfolding env using that(1) by auto
    then show ?thesis by (simp add: ReplaceAll_no_dollar [OF that(2)])
  qed
  from c 1 2 show ?thesis by blast
qed

theorem env_values_escaped_witness:
  "buildJobSpec (memoryCollaborators (Inr exampleRequirements)) exampleJob memoryClient
      Map.empty Map.empty = Inr exampleJobSpec \<and>
   set (concat (map Env (Containers (PodTemplateSpec.Spec (Template exampleJobSpec))))) =
     {\<lparr>EnvVar.Name = ''PRICE'', Value = ''$$5''\<rparr>,
      \<lparr>EnvVar.Name = ''HOME'', Value = ''/root''\<rparr>,
      \<lparr>EnvVar.Name = ''DB_PASSWORD'', Value = ''a$$b$$$$c''\<rparr>}"
  using env_values_escaped [OF example_compiles] example_compiles
  by (simp add: exampleJobSpec_def)

text \<open>
  C10. In the compiled container the job's own variables come first, in their order, and
  the service-injected ones follow, in theirs.
\<close>

theorem env_order:
  assumes "buildJobSpec co job client labels annotations = Inr spec"
  shows "\<exists>c. Containers (PodTemplateSpec.Spec (Template spec)) = [c] \<and>
     map EnvVar.Name (Env c) =
       map EnvVar.Name (Envs (Job.Spec job)) @ map EnvVar.Name (ServiceEnvs (Job.Spec job)) \<and>
     take (length (Envs (Job.Spec job))) (Env c) =
       map (\<lambda>env. \<lparr>EnvVar.Name = EnvVar.Name env,
                    Value = ReplaceAll (EnvVar.Value env) ''$'' ''$$''\<rparr>)
         (Envs (Job.Spec job)) \<and>
     drop (length (Envs (Job.Spec job))) (Env c) =
       map (\<lambda>env. \<lparr>EnvVar.Name = EnvVar.Name env,
                    Value = ReplaceAll (EnvVar.Value env) ''$'' ''$$''\<rparr>)
         (ServiceEnvs (Job.Spec job))"
proof -
  from buildJobSpec_Inr [OF assms] obtain c where
    c: "Containers (PodTemplateSpec.Spec (Template spec)) = [c]" and
    env: "Env c = map (\<lambda>env. \<lparr>EnvVar.Name = EnvVar.Name env,
                        Value = ReplaceAll (EnvVar.Value env) ''$'' ''$$''\<rparr>)
        (Envs (Job.Spec job) @ ServiceEnvs (Job.Spec job))"
    by (auto simp: appendEnvs_map)
  have "map EnvVar.Name (Env c) =
       map EnvVar.Name (Envs (Job.Spec job)) @ map EnvVar.Name (ServiceEnvs (Job.Spec job))"
    by (simp add: env comp_def)
  moreover have "take (length (Envs (Job.Spec job))) (Env c) =
       map (\<lambda>env. \<lparr>EnvVar.Name = EnvVar.Name env,
                    Value = ReplaceAll (EnvVar.Value env) ''$'' ''$$''\<rparr>)
         (Envs (Job.Spec job))"
    by (simp add: env)
  moreover have "drop (length (Envs (Job.Spec job))) (Env c) =
       map (\<lambda>env. \<lparr>EnvVar.Name = EnvVar.Name env,
                    Value = ReplaceAll (EnvVar.Value env) ''$'' ''$$''\<rparr>)
         (ServiceEnvs (Job.Spec job))"
    by (simp add: env)
  ultimately show ?thesis using c by blast
qed

theorem env_order_witness:
  "buildJobSpec (memoryCollaborators (Inr exampleRequirements)) exampleJob memoryClient
      Map.empty Map.empty = Inr exampleJobSpec \<and>
   concat (map (map EnvVar.Name \<circ> Env)
     (Containers (PodTemplateSpec.Spec (Template exampleJobSpec)))) =
     [''PRICE'', ''HOME'', ''DB_PASSWORD'']"
  using env_order [OF example_compiles] example_compiles
  by (simp add: exampleJobSpec_def)

section \<open>Properties of the metadata builder\<close>

lemma customLabels_platform:
  "jobLabels k = Some v \<Longrightarrow> customLabels ls jobLabels k = Some v"
proof (induction ls arbitrary: jobLabels)
  case Nil
  then show ?case by simp
next
  case (Cons l ls)
  show ?case
  proof (cases "jobLabels (MetadataItem.Name l)")
    case None
    with Cons.prems have "k \<noteq> MetadataItem.Name l" by auto
    then have "(jobLabels(MetadataItem.Name l \<mapsto> MetadataItem.Value l)) k = Some v"
      using Cons.prems by simp
    then have "customLabels ls (jobLabels(MetadataItem.Name l \<mapsto> MetadataItem.Value l)) k
                 = Some v"
      by (rule Cons.IH)
    with None show ?thesis by simp
  next
    case (Some w)
    with Cons show ?thesis by simp
  qed
qed

lemma customLabels_custom:
  "jobLabels k = None \<Longrightarrow>
     customLabels ls jobLabels k =
       map_of (map (\<lambda>l. (MetadataItem.Name l, MetadataItem.Value l)) ls) k"
proof (induction ls arbitrary: jobLabels)
  case Nil
  then show ?case by simp
next
  case (Cons l ls)
  show ?case
  proof (cases "jobLabels (MetadataItem.Name l)")
    case None
    show ?thesis
    proof (cases "k = MetadataItem.Name l")
      case True
      with None show ?thesis by (simp add: customLabels_platform)
    next
      case False
      with None Cons show ?thesis by simp
    qed
  next
    case (Some v)
    with Cons have "k \<noteq> MetadataItem.Name l" by auto
    with Some Cons show ?thesis by simp
  qed
qed

lemma customAnnotations_eq:
  "customAnnotations as m k =
     (case map_of (rev (map (\<lambda>a. (MetadataItem.Name a, MetadataItem.Value a)) as)) k of
        None \<Rightarrow> m k | Some v \<Rightarrow> Some v)"
  by (induction as arbitrary: m) (auto simp: map_add_def split: option.splits)

lemma example_metadata:
  "buildMetadata (memoryCollaborators r) exampleJob =
     ([''tsuru.io/job-name'' \<mapsto> ''foo'', ''tsuru.io/job-pool'' \<mapsto> ''p1'',
       ''team'' \<mapsto> ''ops''],
      [''note'' \<mapsto> ''x'', ''note'' \<mapsto> ''y''])"
  by (simp add: buildMetadata_def memoryCollaborators_def exampleJob_def)

lemma distinct_metadata:
  "buildMetadata (memoryCollaborators r) distinctJob =
     ([''tsuru.io/job-name'' \<mapsto> ''foo'', ''tsuru.io/job-pool'' \<mapsto> ''p1'',
       ''team'' \<mapsto> ''ops'', ''tier'' \<mapsto> ''batch''],
      [''note'' \<mapsto> ''x'', ''owner'' \<mapsto> ''y''])"
  by (simp add: buildMetadata_def memoryCollaborators_def distinctJob_def exampleJob_def)

lemma map_of_key_present:
  assumes "x \<in> set xs"
  shows "\<exists>y \<in> set xs. fst y = fst x \<and> map_of xs (fst x) = Some (snd y)"
proof -
  from assms have "fst x \<in> fst ` set xs" by (rule imageI)
  then obtain v where v: "map_of xs (fst x) = Some v"
    by (cases "map_of xs (fst x)") (auto simp: map_of_eq_None_iff)
  then have "(fst x, v) \<in> set xs" by (rule map_of_SomeD)
  with v show ?thesis by (intro bexI [of _ "(fst x, v)"]) simp_all
qed

lemma map_of_pair_present:
  assumes "distinct (map fst xs)" and "x \<in> set xs"
  shows "map_of xs (fst x) = Some (snd x)"
  using assms by (simp add: map_of_is_SomeI)

text \<open>
  C4. Every platform-derived label is in the label map unchanged, so a custom label whose
  key is a platform key is dropped. The key of every other custom label is in the map with
  the value of a custom label of that key: with its own value when the custom labels have
  distinct keys. Every custom annotation is copied with no test against the platform keys:
  its key is in the annotation map with the value of a custom annotation of that key, its
  own when the keys are distinct, and the map has no other key.
\<close>

theorem metadata_merge:
  assumes "buildMetadata co job = (jobLabels, jobAnnotations)"
  shows
    "(\<forall>k v. JobLabels co job k = Some v \<longrightarrow> jobLabels k = Some v) \<and>
     (\<forall>label \<in> set (Metadata.Labels (Job.Metadata job)).
        JobLabels co job (MetadataItem.Name label) \<noteq> None \<longrightarrow>
          jobLabels (MetadataItem.Name label) = JobLabels co job (MetadataItem.Name label)) \<and>
     (\<forall>label \<in> set (Metadata.Labels (Job.Metadata job)).
        JobLabels co job (MetadataItem.Name label) = None \<longrightarrow>
          (\<exists>l \<in> set (Metadata.Labels (Job.Metadata job)).
             MetadataItem.Name l = MetadataItem.Name label \<and>
             jobLabels (MetadataItem.Name label) = Some (MetadataItem.Value l))) \<and>
     (distinct (map MetadataItem.Name (Metadata.Labels (Job.Metadata job))) \<longrightarrow>
        (\<forall>label \<in> set (Metadata.Labels (Job.Metadata job)).
           JobLabels co job (MetadataItem.Name label) = None \<longrightarrow>
             jobLabels (MetadataItem.Name label) = Some (MetadataItem.Value label))) \<and>
     (\<forall>a \<in> set (Metadata.Annotations (Job.Metadata job)).
        \<exists>b \<in> set (Metadata.Annotations (Job.Metadata job)).
          MetadataItem.Name b = MetadataItem.Name a \<and>
          jobAnnotations (MetadataItem.Name a) = Some (MetadataItem.Value b)) \<and>
     (distinct (map MetadataItem.Name (Metadata.Annotations (Job.Metadata job))) \<longrightarrow>
        (\<forall>a \<in> set (Metadata.Annotations (Job.Metadata job)).
           jobAnnotations (MetadataItem.Name a) = Some (MetadataItem.Value a))) \<and>
     dom jobAnnotations = MetadataItem.Name ` set (Metadata.Annotations (Job.Metadata job))"
proof -
  let ?pair = "\<lambda>l. (MetadataItem.Name l, MetadataItem.Value l)"
  let ?ls = "map ?pair (Metadata.Labels (Job.Metadata job))"
  let ?as = "rev (map ?pair (Metadata.Annotations (Job.Metadata job)))"
  from assms have labels: "jobLabels = customLabels (Metadata.Labels (Job.Metadata job))
                                         (JobLabels co job)"
    and annotations: "jobAnnotations =
           customAnnotations (Metadata.Annotations (Job.Metadata job)) Map.empty"
    by (simp_all add: buildMetadata_def Let_def)
  have platform: "jobLabels k = Some v" if "JobLabels co job k = Some v" for k v
    using that by (simp add: labels customLabels_platform)
  have custom: "jobLabels k = map_of ?ls k" if "JobLabels co job k = None" for k
    using that by (simp add: labels customLabels_custom)
  have annot: "jobAnnotations k = map_of ?as k" for k
    by (simp add: annotations customAnnotations_eq split: option.splits)
  have fst_ls: "map fst ?ls = map MetadataItem.Name (Metadata.Labels (Job.Metadata job))"
    by (simp add: comp_def)
  have fst_as: "map fst ?as = rev (map MetadataItem.Name (Metadata.Annotations (Job.Metadata job)))"
    by (simp add: comp_def rev_map)
  have 1: "\<forall>k v. JobLabels co job k = Some v \<longrightarrow> jobLabels k = Some v"
    using platform by blast
  have 2: "\<forall>label \<in> set (Metadata.Labels (Job.Metadata job)).
        JobLabels co job (MetadataItem.Name label) \<noteq> None \<longrightarrow>
          jobLabels (MetadataItem.Name label) = JobLabels co job (MetadataItem.Name label)"
    using platform by auto
  have 3: "\<exists>l \<in> set (Metadata.Labels (Job.Metadata job)).
             MetadataItem.Name l = MetadataItem.Name label \<and>
             jobLabels (MetadataItem.Name label) = Some (MetadataItem.Value l)"
    if "label \<in> set (Metadata.Labels (Job.Metadata job))"
      and "JobLabels co job (MetadataItem.Name label) = None" for label
  proof -
    from that(1) have "?pair label \<in> set ?ls" by simp
    from map_of_key_present [OF this] custom [OF that(2)] show ?thesis by auto
  qed
  have 4: "jobLabels (MetadataItem.Name label) = Some (MetadataItem.Value label)"
    if "distinct (map MetadataItem.Name (Metadata.Labels (Job.Metadata job)))"
      and "label \<in> set (Metadata.Labels (Job.Metadata job))"
      and "JobLabels co job (MetadataItem.Name label) = None" for label
  proof -
    from that(1) have "distinct (map fst ?ls)" by (simp only: fst_ls)
    moreover from that(2) have "?pair label \<in> set ?ls" by simp
    ultimately have "map_of ?ls (fst (?pair label)) = Some (snd (?pair label))"
      by (rule map_of_pair_present)
    with custom [OF that(3)] show ?thesis by simp
  qed
  have 5: "\<exists>b \<in> set (Metadata.Annotations (Job.Metadata job)).
          MetadataItem.Name b = MetadataItem.Name a \<and>
          jobAnnotations (MetadataItem.Name a) = Some (MetadataItem.Value b)"
    if "a \<in> set (Metadata.Annotations (Job.Metadata job))" for a
  proof -
    from that have "?pair a \<in> set ?as" by simp
    from map_of_key_present [OF this] annot [of "MetadataItem.Name a"] show ?thesis by auto
  qed
  have 6: "jobAnnotations (MetadataItem.Name a) = Some (MetadataItem.Value a)"
    if "distinct (map MetadataItem.Name (Metadata.Annotations (Job.Metadata job)))"
      and "a \<in> set (Metadata.Annotations (Job.Metadata job))" for a
  proof -
    from that(1) have "distinct (map fst ?as)" by (simp only: fst_as distinct_rev)
    moreover from that(2) have "?pair a \<in> set ?as" by simp
    ultimately have "map_of ?as (fst (?pair a)) = Some (snd (?pair a))"
      by (rule map_of_pair_present)
    with annot [of "MetadataItem.Name a"] show ?thesis by simp
  qed
  have "jobAnnotations = map_of ?as" using annot by (simp add: fun_eq_iff)
  then have 7: "dom jobAnnotations
                  = MetadataItem.Name ` set (Metadata.Annotations (Job.Metadata job))"
    by (simp add: dom_map_of_conv_image_fst image_image)
  from 1 2 3 4 5 6 7 show ?thesis by blast
qed

theorem metadata_merge_witness:
  "buildMetadata (memoryCollaborators (Inr exampleRequirements)) exampleJob =
     ([''tsuru.io/job-name'' \<mapsto> ''foo'', ''tsuru.io/job-pool'' \<mapsto> ''p1'',
       ''team'' \<mapsto> ''ops''],
      [''note'' \<mapsto> ''x'', ''note'' \<mapsto> ''y'']) \<and>
   map MetadataItem.Name (Metadata.Labels (Job.Metadata exampleJob))
     = [''team'', ''tsuru.io/job-name'', ''team''] \<and>
   buildMetadata (memoryCollaborators (Inr exampleRequirements)) distinctJob =
     ([''tsuru.io/job-name'' \<mapsto> ''foo'', ''tsuru.io/job-pool'' \<mapsto> ''p1'',
       ''team'' \<mapsto> ''ops'', ''tier'' \<mapsto> ''batch''],
      [''note'' \<mapsto> ''x'', ''owner'' \<mapsto> ''y'']) \<and>
   JobLabels (memoryCollaborators (Inr exampleRequirements)) distinctJob ''tsuru.io/job-name''
     = Some ''foo'' \<and>
   JobLabels (memoryCollaborators (Inr exampleRequirements)) distinctJob ''tier'' = None \<and>
   distinct (map MetadataItem.Name (Metadata.Labels (Job.Metadata distinctJob))) \<and>
   distinct (map MetadataItem.Name (Metadata.Annotations (Job.Metadata distinctJob))) \<and>
   \<lparr>MetadataItem.Name = ''tier'', Value = ''batch''\<rparr>
     \<in> set (Metadata.Labels (Job.Metadata distinctJob)) \<and>
   \<lparr>MetadataItem.Name = ''tsuru.io/job-name'', Value = ''other''\<rparr>
     \<in> set (Metadata.Labels (Job.Metadata distinctJob)) \<and>
   \<lparr>MetadataItem.Name = ''owner'', Value = ''y''\<rparr>
     \<in> set (Metadata.Annotations (Job.Metadata distinctJob))"
  using metadata_merge [OF example_metadata [of "Inr exampleRequirements"]]
    metadata_merge [OF distinct_metadata [of "Inr exampleRequirements"]]
  by (simp add: example_metadata distinct_metadata)
     (simp add: exampleJob_def distinctJob_def memoryCollaborators_def)

section \<open>Properties of the lifecycle manager\<close>

lemma scheduled_cronJobs:
  shows "map (\<lambda>cj. (Namespace (CronJob.ObjectMeta cj), ObjectMeta.Name (CronJob.ObjectMeta cj)))
     (cronJobs scheduledCluster) = [(''tsuru-p1'', ''foo'')]"
  and "jobs scheduledCluster = []"
  and "serviceAccounts scheduledCluster = [(''tsuru-p1'', ''job-foo'')]"
  by (simp_all add: scheduledCluster_def CreateJob_def ensureServiceAccountForJob_def
      memoryEnsureServiceAccount_def buildMetadata_def buildJobSpec_def buildCronjob_def
      memoryCollaborators_def memoryClient_def exampleJob_def emptyCluster_def
      emptyObjectMeta_def isCronJob_def Let_def)

lemma scheduled_cronJobs_one:
  obtains cron where "cronJobs scheduledCluster = [cron]"
    and "isCronJob ''tsuru-p1'' ''foo'' cron"
  using scheduled_cronJobs(1) by (auto simp: isCronJob_def)

text \<open>
  C6, as amended. When resource resolution fails, \<^verbatim>\<open>CreateJob\<close> and
  \<^verbatim>\<open>UpdateJob\<close> return that error without creating or updating the scheduled job:
  the orchestrator is left as the identity provisioning, which runs first, left it.
\<close>

theorem compile_error_no_schedule_write:
  assumes "clusterForPool co (Pool job) = Inr client"
    and "resourceRequirements co job client = Inl err"
  shows "CreateJob co job s =
           (case ensureServiceAccountForJob co client job s of
              (Some e, s1) \<Rightarrow> (Inl e, s1)
            | (None, s1) \<Rightarrow> (Inl err, s1)) \<and>
         UpdateJob co job s =
           (case ensureServiceAccountForJob co client job s of
              (Some e, s1) \<Rightarrow> (Some e, s1)
            | (None, s1) \<Rightarrow> (Some err, s1))"
  using assms
  by (simp add: CreateJob_def UpdateJob_def buildJobSpec_def
        split: prod.splits option.splits sum.splits)

lemma failing_create:
  "CreateJob (memoryCollaborators (Inl (Failure ''no plan''))) exampleJob emptyCluster =
     (Inl (Failure ''no plan''),
      emptyCluster\<lparr>serviceAccounts := [(''tsuru-p1'', ''job-foo'')]\<rparr>)"
  by (simp add: CreateJob_def ensureServiceAccountForJob_def memoryEnsureServiceAccount_def
        buildMetadata_def buildJobSpec_def memoryCollaborators_def memoryClient_def
        exampleJob_def emptyCluster_def Let_def)

lemma failing_update:
  "UpdateJob (memoryCollaborators (Inl (Failure ''no plan''))) exampleJob emptyCluster =
     (Some (Failure ''no plan''),
      emptyCluster\<lparr>serviceAccounts := [(''tsuru-p1'', ''job-foo'')]\<rparr>)"
  by (simp add: UpdateJob_def ensureServiceAccountForJob_def memoryEnsureServiceAccount_def
        buildMetadata_def buildJobSpec_def memoryCollaborators_def memoryClient_def
        exampleJob_def emptyCluster_def Let_def)

text \<open>
  The orchestrator is not left untouched: on the orchestrator in memory, with a resolver
  that fails, both calls return the resolver's error after the service account of the job
  has been created.
\<close>

theorem compile_error_counterexample:
  "resourceRequirements (memoryCollaborators (Inl (Failure ''no plan''))) exampleJob
     memoryClient = Inl (Failure ''no plan'') \<and>
   serviceAccounts emptyCluster = [] \<and>
   fst (CreateJob (memoryCollaborators (Inl (Failure ''no plan''))) exampleJob emptyCluster)
     = Inl (Failure ''no plan'') \<and>
   serviceAccounts
     (snd (CreateJob (memoryCollaborators (Inl (Failure ''no plan''))) exampleJob emptyCluster))
     = [(''tsuru-p1'', ''job-foo'')] \<and>
   fst (UpdateJob (memoryCollaborators (Inl (Failure ''no plan''))) exampleJob emptyCluster)
     = Some (Failure ''no plan'') \<and>
   serviceAccounts
     (snd (UpdateJob (memoryCollaborators (Inl (Failure ''no plan''))) exampleJob emptyCluster))
     = [(''tsuru-p1'', ''job-foo'')]"
  by (simp add: failing_create failing_update)
     (simp add: memoryCollaborators_def emptyCluster_def)

theorem compile_error_no_schedule_write_witness:
  "clusterForPool (memoryCollaborators (Inl (Failure ''no plan''))) (Pool exampleJob)
     = Inr memoryClient \<and>
   resourceRequirements (memoryCollaborators (Inl (Failure ''no plan''))) exampleJob
     memoryClient = Inl (Failure ''no plan'') \<and>
   CreateJob (memoryCollaborators (Inl (Failure ''no plan''))) exampleJob emptyCluster =
     (Inl (Failure ''no plan''),
      emptyCluster\<lparr>serviceAccounts := [(''tsuru-p1'', ''job-foo'')]\<rparr>) \<and>
   UpdateJob (memoryCollaborators (Inl (Failure ''no plan''))) exampleJob emptyCluster =
     (Some (Failure ''no plan''),
      emptyCluster\<lparr>serviceAccounts := [(''tsuru-p1'', ''job-foo'')]\<rparr>) \<and>
   cronJobs (emptyCluster\<lparr>serviceAccounts := [(''tsuru-p1'', ''job-foo'')]\<rparr>) = []"
proof -
  have 1: "clusterForPool (memoryCollaborators (Inl (Failure ''no plan''))) (Pool exampleJob)
     = Inr memoryClient"
    by (simp add: memoryCollaborators_def)
  have 2: "resourceRequirements (memoryCollaborators (Inl (Failure ''no plan''))) exampleJob
     memoryClient = Inl (Failure ''no plan'')"
    by (simp add: memoryCollaborators_def)
  have 3: "ensureServiceAccountForJob (memoryCollaborators (Inl (Failure ''no plan'')))
             memoryClient exampleJob emptyCluster
           = (None, emptyCluster\<lparr>serviceAccounts := [(''tsuru-p1'', ''job-foo'')]\<rparr>)"
    by (simp add: ensureServiceAccountForJob_def memoryEnsureServiceAccount_def
          memoryCollaborators_def memoryClient_def exampleJob_def emptyCluster_def)
  from compile_error_no_schedule_write [OF 1 2, of emptyCluster] 1 2 show ?thesis
    by (simp add: 3) (simp add: emptyCluster_def)
qed

text \<open>
  C7. \<^verbatim>\<open>DestroyJob\<close> goes on to delete the scheduled job, and returns what that
  delete returns, when the delete of the identity succeeded or answered not-found; any
  other error of the identity delete is returned and the scheduled job is left alone.
\<close>

theorem destroy_tolerates_missing_identity:
  assumes "clusterForPool co (Pool job) = Inr client"
    and "ServiceAccountsDelete client (PoolNamespace client (Pool job))
           (serviceAccountNameForJob co job) s = (r, s1)"
  shows "((r = None \<or> (\<exists>e. r = Some e \<and> IsNotFound e)) \<longrightarrow>
            DestroyJob co job s =
              CronJobsDelete client (PoolNamespace client (Pool job)) (Job.Name job) s1) \<and>
         (\<forall>e. r = Some e \<and> \<not> IsNotFound e \<longrightarrow> DestroyJob co job s = (Some e, s1))"
  using assms by (auto simp: DestroyJob_def Let_def)

theorem destroy_tolerates_missing_identity_witness:
  "ServiceAccountsDelete memoryClient (PoolNamespace memoryClient (Pool exampleJob))
     (serviceAccountNameForJob (memoryCollaborators (Inr exampleRequirements)) exampleJob)
     (scheduledCluster\<lparr>serviceAccounts := []\<rparr>)
     = (Some (NotFound ''job-foo''), scheduledCluster\<lparr>serviceAccounts := []\<rparr>) \<and>
   IsNotFound (NotFound ''job-foo'') \<and>
   DestroyJob (memoryCollaborators (Inr exampleRequirements)) exampleJob
     (scheduledCluster\<lparr>serviceAccounts := []\<rparr>)
     = (None, scheduledCluster\<lparr>serviceAccounts := [], cronJobs := []\<rparr>) \<and>
   \<not> IsNotFound (Failure ''timeout'') \<and>
   DestroyJob brokenCollaborators exampleJob scheduledCluster
     = (Some (Failure ''timeout''), scheduledCluster)"
proof -
  let ?co = "memoryCollaborators (Inr exampleRequirements)"
  let ?s = "scheduledCluster\<lparr>serviceAccounts := []\<rparr>"
  let ?broken = "memoryClient
          \<lparr>ServiceAccountsDelete := (\<lambda>ns name c. (Some (Failure ''timeout''), c))\<rparr>"
  obtain cron where cron: "cronJobs scheduledCluster = [cron]"
    and isc: "isCronJob ''tsuru-p1'' ''foo'' cron"
    by (rule scheduled_cronJobs_one)
  have client: "clusterForPool ?co (Pool exampleJob) = Inr memoryClient"
    by (simp add: memoryCollaborators_def)
  have del: "ServiceAccountsDelete memoryClient (PoolNamespace memoryClient (Pool exampleJob))
     (serviceAccountNameForJob ?co exampleJob) ?s = (Some (NotFound ''job-foo''), ?s)"
    by (simp add: memoryCollaborators_def memoryClient_def exampleJob_def)
  have cronDel: "CronJobsDelete memoryClient (PoolNamespace memoryClient (Pool exampleJob))
     (Job.Name exampleJob) ?s = (None, scheduledCluster\<lparr>serviceAccounts := [], cronJobs := []\<rparr>)"
    using isc by (simp add: memoryClient_def exampleJob_def cron)
  have client': "clusterForPool brokenCollaborators (Pool exampleJob) = Inr ?broken"
    by (simp add: brokenCollaborators_def memoryCollaborators_def)
  have del': "ServiceAccountsDelete ?broken (PoolNamespace ?broken (Pool exampleJob))
     (serviceAccountNameForJob brokenCollaborators exampleJob) scheduledCluster
       = (Some (Failure ''timeout''), scheduledCluster)"
    by simp
  from destroy_tolerates_missing_identity [OF client del]
  have "DestroyJob ?co exampleJob ?s
          = (None, scheduledCluster\<lparr>serviceAccounts := [], cronJobs := []\<rparr>)"
    by (simp add: cronDel)
  moreover from destroy_tolerates_missing_identity [OF client' del']
  have "DestroyJob brokenCollaborators exampleJob scheduledCluster
          = (Some (Failure ''timeout''), scheduledCluster)"
    by simp
  ultimately show ?thesis using del by simp
qed

section \<open>Properties of the manual trigger\<close>

lemma sint_int64_quo_60: "sint (int64_quo t 60) = sint t sdiv 60"
proof -
  have lo: "- (2 ^ 63) \<le> sint t" using sint_ge [of t] by simp
  have hi: "sint t < 2 ^ 63" using sint_lt [of t] by simp
  from lo hi have "\<bar>sint t\<bar> \<le> 2 ^ 63" by simp
  then have "\<bar>sint t\<bar> div 60 \<le> 2 ^ 63 div 60"
    by (rule zdiv_mono1) simp
  then have small: "\<bar>sint t\<bar> div 60 < 2 ^ 63" by simp
  have nonneg: "0 \<le> \<bar>sint t\<bar> div 60" by simp
  have "sint t sdiv 60 = sgn (sint t) * (\<bar>sint t\<bar> div 60)"
    by (simp add: signed_divide_int_def)
  with small nonneg have "- (2 ^ 63) \<le> sint t sdiv 60 \<and> sint t sdiv 60 < 2 ^ 63"
    by (auto simp: sgn_if)
  then have "signed_take_bit 63 (sint t sdiv 60) = sint t sdiv 60"
    by (simp add: signed_take_bit_int_eq_self)
  then show ?thesis
    by (simp add: int64_quo_def sint_sbintrunc')
qed

lemma digit_of_char:
  assumes "n < 10"
  shows "of_char (''0123456789'' ! n) = 48 + n"
proof -
  from assms have "n \<in> {0, 1, 2, 3, 4, 5, 6, 7, 8, 9}" by auto
  then show ?thesis by auto
qed

lemma digit_inj:
  assumes "a < 10" "b < 10" "''0123456789'' ! a = ''0123456789'' ! b"
  shows "a = b"
proof -
  have "(of_char (''0123456789'' ! a) :: nat) = of_char (''0123456789'' ! b)"
    using assms(3) by simp
  then show ?thesis
    by (simp add: digit_of_char assms(1,2))
qed

lemma digit_not_minus: "n < 10 \<Longrightarrow> ''0123456789'' ! n \<noteq> CHR ''-''"
proof
  assume "n < 10" and "''0123456789'' ! n = CHR ''-''"
  then have "(of_char (''0123456789'' ! n) :: nat) = of_char (CHR ''-'')" by simp
  with \<open>n < 10\<close> show False by (simp add: digit_of_char)
qed

lemma FormatUint_not_Nil: "FormatUint n \<noteq> []"
  by (subst FormatUint.simps) simp

lemma FormatUint_no_minus: "CHR ''-'' \<notin> set (FormatUint n)"
proof (induction n rule: FormatUint.induct)
  case (1 n)
  show ?case
  proof (cases "n < 10")
    case True
    then show ?thesis
      using digit_not_minus [of n] by (subst FormatUint.simps) auto
  next
    case False
    with 1 show ?thesis
      using digit_not_minus [of "n mod 10"] by (subst FormatUint.simps) auto
  qed
qed

lemma FormatUint_inj: "FormatUint a = FormatUint b \<Longrightarrow> a = b"
proof (induction a arbitrary: b rule: FormatUint.induct)
  case (1 a)
  show ?case
  proof (cases "a < 10")
    case a: True
    show ?thesis
    proof (cases "b < 10")
      case True
      with a "1.prems" show ?thesis
        by (simp add: FormatUint.simps [of a] FormatUint.simps [of b] digit_inj)
    next
      case False
      with a "1.prems" FormatUint_not_Nil [of "b div 10"] show ?thesis
        by (simp add: FormatUint.simps [of a] FormatUint.simps [of b] Cons_eq_append_conv)
    qed
  next
    case a: False
    show ?thesis
    proof (cases "b < 10")
      case True
      with a "1.prems" FormatUint_not_Nil [of "a div 10"] show ?thesis
        by (simp add: FormatUint.simps [of a] FormatUint.simps [of b] append_eq_Cons_conv)
    next
      case False
      with a "1.prems" have
        pre: "FormatUint (a div 10) = FormatUint (b div 10)" and
        dig: "''0123456789'' ! (a mod 10) = ''0123456789'' ! (b mod 10)"
        by (simp_all add: FormatUint.simps [of a] FormatUint.simps [of b])
      from "1.IH" [OF a pre] have "a div 10 = b div 10" .
      moreover from dig have "a mod 10 = b mod 10" by (simp add: digit_inj)
      ultimately show ?thesis by (metis div_mult_mod_eq)
    qed
  qed
qed

lemma FormatInt_inj: "FormatInt i = FormatInt j \<Longrightarrow> i = j"
proof -
  assume eq: "FormatInt i = FormatInt j"
  have hd: "FormatUint n \<noteq> CHR ''-'' # s" "CHR ''-'' # s \<noteq> FormatUint n" for n s
    using FormatUint_no_minus [of n] by (metis list.set_intros(1))+
  show ?thesis
  proof (cases "i < 0")
    case i: True
    show ?thesis
    proof (cases "j < 0")
      case True
      with i eq have "nat (- i) = nat (- j)"
        by (simp add: FormatInt_def FormatUint_inj)
      with i True show ?thesis by simp
    next
      case False
      with i eq hd(2) [of _ "nat j"] show ?thesis by (simp add: FormatInt_def)
    qed
  next
    case i: False
    show ?thesis
    proof (cases "j < 0")
      case True
      with i eq hd(1) [of "nat i"] show ?thesis by (simp add: FormatInt_def)
    next
      case False
      with i eq have "nat i = nat j"
        by (simp add: FormatInt_def FormatUint_inj)
      with i False show ?thesis by simp
    qed
  qed
qed

lemma getManualJobName_eq:
  "getManualJobName t s = s @ ''-manual-job-'' @ FormatInt (sint t sdiv 60)"
  by (simp add: getManualJobName_def sint_int64_quo_60)

lemma getManualJobName_same_iff:
  "getManualJobName t1 s = getManualJobName t2 s \<longleftrightarrow> sint t1 sdiv 60 = sint t2 sdiv 60"
  using FormatInt_inj by (auto simp: getManualJobName_eq)

lemma memory_TriggerCron_exists:
  assumes "find (isCronJob (''tsuru-'' @ pool) name) (cronJobs c) = Some cron"
    and "list_ex (isJob (''tsuru-'' @ pool) (getManualJobName t name)) (jobs c)"
  shows "TriggerCron (memoryCollaborators r) t name pool c =
           (Some (AlreadyExists (getManualJobName t name)), c)"
proof -
  from assms(1) have "isCronJob (''tsuru-'' @ pool) name cron"
    by (auto simp: find_Some_iff)
  then have ns: "Namespace (CronJob.ObjectMeta cron) = ''tsuru-'' @ pool"
    and nm: "ObjectMeta.Name (CronJob.ObjectMeta cron) = name"
    by (simp_all add: isCronJob_def)
  show ?thesis
    using assms
    by (simp add: TriggerCron_def memoryCollaborators_def memoryClient_def Let_def ns nm
          isJob_def)
qed

lemma memory_TriggerCron_fresh:
  assumes "find (isCronJob (''tsuru-'' @ pool) name) (cronJobs c) = Some cron"
    and "\<not> list_ex (isJob (''tsuru-'' @ pool) (getManualJobName t name)) (jobs c)"
  shows "fst (TriggerCron (memoryCollaborators r) t name pool c) = None"
    and "cronJobs (snd (TriggerCron (memoryCollaborators r) t name pool c)) = cronJobs c"
    and "list_ex (isJob (''tsuru-'' @ pool) (getManualJobName t name))
           (jobs (snd (TriggerCron (memoryCollaborators r) t name pool c)))"
proof -
  from assms(1) have "isCronJob (''tsuru-'' @ pool) name cron"
    by (auto simp: find_Some_iff)
  then have ns: "Namespace (CronJob.ObjectMeta cron) = ''tsuru-'' @ pool"
    and nm: "ObjectMeta.Name (CronJob.ObjectMeta cron) = name"
    by (simp_all add: isCronJob_def)
  show "fst (TriggerCron (memoryCollaborators r) t name pool c) = None"
    and "cronJobs (snd (TriggerCron (memoryCollaborators r) t name pool c)) = cronJobs c"
    and "list_ex (isJob (''tsuru-'' @ pool) (getManualJobName t name))
           (jobs (snd (TriggerCron (memoryCollaborators r) t name pool c)))"
    using assms
    by (simp_all add: TriggerCron_def memoryCollaborators_def memoryClient_def Let_def ns nm
          isJob_def)
qed

lemma memory_TriggerCron_NotFound:
  assumes "find (isCronJob (''tsuru-'' @ pool) name) (cronJobs c) = None"
  shows "TriggerCron (memoryCollaborators r) t name pool c = (Some (NotFound name), c)"
  using assms
  by (simp add: TriggerCron_def memoryCollaborators_def memoryClient_def Let_def)

lemma memory_TriggerCron_duplicate:
  assumes first: "TriggerCron (memoryCollaborators r) t1 name pool c = (None, c1)"
    and same: "sint t1 sdiv 60 = sint t2 sdiv 60"
  shows "TriggerCron (memoryCollaborators r) t2 name pool c1 =
           (Some (AlreadyExists (getManualJobName t1 name)), c1)"
proof -
  from same have names: "getManualJobName t2 name = getManualJobName t1 name"
    by (simp add: getManualJobName_eq)
  from first obtain cron where
    cron: "find (isCronJob (''tsuru-'' @ pool) name) (cronJobs c) = Some cron"
    by (cases "find (isCronJob (''tsuru-'' @ pool) name) (cronJobs c)")
       (auto simp: memory_TriggerCron_NotFound)
  from first have
    fresh: "\<not> list_ex (isJob (''tsuru-'' @ pool) (getManualJobName t1 name)) (jobs c)"
    using memory_TriggerCron_exists [OF cron, of t1 r] by auto
  from first have c1: "c1 = snd (TriggerCron (memoryCollaborators r) t1 name pool c)"
    by simp
  from memory_TriggerCron_fresh(2) [OF cron fresh, of r] cron
  have "find (isCronJob (''tsuru-'' @ pool) name) (cronJobs c1) = Some cron"
    by (simp add: c1)
  moreover from memory_TriggerCron_fresh(3) [OF cron fresh, of r]
  have "list_ex (isJob (''tsuru-'' @ pool) (getManualJobName t2 name)) (jobs c1)"
    by (simp add: c1 names)
  ultimately show ?thesis
    using memory_TriggerCron_exists [of pool name c1 cron t2 r] by (simp add: names)
qed

lemma first_trigger:
  "TriggerCron (memoryCollaborators (Inr exampleRequirements)) 120 ''foo'' ''p1''
     scheduledCluster = (None, triggeredCluster)"
proof -
  from scheduled_cronJobs(1) obtain cron where
    cron: "cronJobs scheduledCluster = [cron]" and
    "Namespace (CronJob.ObjectMeta cron) = ''tsuru-p1''"
    "ObjectMeta.Name (CronJob.ObjectMeta cron) = ''foo''"
    by auto
  then have "find (isCronJob (''tsuru-'' @ ''p1'') ''foo'') (cronJobs scheduledCluster)
               = Some cron"
    by (simp add: isCronJob_def)
  from memory_TriggerCron_fresh(1) [OF this, of 120 "Inr exampleRequirements"]
  have "fst (TriggerCron (memoryCollaborators (Inr exampleRequirements)) 120 ''foo'' ''p1''
               scheduledCluster) = None"
    by (simp add: scheduled_cronJobs(2))
  then show ?thesis
    by (simp add: triggeredCluster_def prod_eq_iff)
qed

text \<open>
  C5. The name of a manual execution is the schedule's name, \<^verbatim>\<open>-manual-job-\<close> and
  the Unix time divided by 60 (Go's integer division) in decimal, so two names for one
  schedule are equal exactly when the quotients are: 120 and 121 give
  \<^verbatim>\<open>foo-manual-job-2\<close>, 180 gives \<^verbatim>\<open>foo-manual-job-3\<close>. On the orchestrator in
  memory, after a trigger that succeeded, a second one of the same minute is refused as a
  duplicate.
\<close>

theorem manual_job_name:
  "getManualJobName t s = s @ ''-manual-job-'' @ FormatInt (sint t sdiv 60) \<and>
   (getManualJobName t1 s = getManualJobName t2 s \<longleftrightarrow> sint t1 sdiv 60 = sint t2 sdiv 60) \<and>
   getManualJobName 120 ''foo'' = ''foo-manual-job-2'' \<and>
   getManualJobName 121 ''foo'' = ''foo-manual-job-2'' \<and>
   getManualJobName 180 ''foo'' = ''foo-manual-job-3'' \<and>
   (TriggerCron (memoryCollaborators r) t1 s pool c = (None, c1)
      \<and> sint t1 sdiv 60 = sint t2 sdiv 60 \<longrightarrow>
    TriggerCron (memoryCollaborators r) t2 s pool c1 =
      (Some (AlreadyExists (getManualJobName t1 s)), c1))"
proof -
  have "getManualJobName 120 ''foo'' = ''foo-manual-job-2''"
    and "getManualJobName 121 ''foo'' = ''foo-manual-job-2''"
    and "getManualJobName 180 ''foo'' = ''foo-manual-job-3''"
    by (simp_all add: getManualJobName_def int64_quo_def signed_divide_int_def FormatInt_def
          FormatUint.simps)
  then show ?thesis
    using getManualJobName_eq [of t s] getManualJobName_same_iff [of t1 s t2]
      memory_TriggerCron_duplicate [of r t1 s pool c c1 t2]
    by blast
qed

theorem manual_job_name_witness:
  "TriggerCron (memoryCollaborators (Inr exampleRequirements)) 120 ''foo'' ''p1''
     scheduledCluster = (None, triggeredCluster) \<and>
   sint (120 :: int64) sdiv 60 = sint (121 :: int64) sdiv 60 \<and>
   TriggerCron (memoryCollaborators (Inr exampleRequirements)) 121 ''foo'' ''p1''
     triggeredCluster = (Some (AlreadyExists ''foo-manual-job-2''), triggeredCluster) \<and>
   getManualJobName 180 ''foo'' \<noteq> getManualJobName 120 ''foo''"
proof -
  have same: "sint (120 :: int64) sdiv 60 = sint (121 :: int64) sdiv 60"
    by (simp add: signed_divide_int_def)
  have differ: "sint (180 :: int64) sdiv 60 \<noteq> sint (120 :: int64) sdiv 60"
    by (simp add: signed_divide_int_def)
  note differ_inst = manual_job_name [of 120 "''foo''" 180 120 "Inr exampleRequirements" "''p1''"
                 scheduledCluster triggeredCluster]
  note same_inst = manual_job_name [of 120 "''foo''" 120 121 "Inr exampleRequirements" "''p1''"
                 scheduledCluster triggeredCluster]
  from differ_inst differ have "getManualJobName 180 ''foo'' \<noteq> getManualJobName 120 ''foo''"
    by blast
  moreover have "TriggerCron (memoryCollaborators (Inr exampleRequirements)) 121 ''foo'' ''p1''
     triggeredCluster = (Some (AlreadyExists ''foo-manual-job-2''), triggeredCluster)"
  proof -
    from same_inst have name: "getManualJobName 120 ''foo'' = ''foo-manual-job-2''"
      by (rule conjunct2 [THEN conjunct2, THEN conjunct1])
    from same_inst first_trigger same
    have "TriggerCron (memoryCollaborators (Inr exampleRequirements)) 121 ''foo'' ''p1''
            triggeredCluster
          = (Some (AlreadyExists (getManualJobName 120 ''foo'')), triggeredCluster)"
      by blast
    then show ?thesis by (simp only: name)
  qed
  ultimately show ?thesis using first_trigger same by blast
qed

section \<open>Properties of the reconciler\<close>

lemma jobsToJobUnitsLoop_Inr:
  "jobsToJobUnitsLoop co client k8sJobs units s = (Inr result, s') \<Longrightarrow>
     map (\<lambda>u. (Unit.ID u, Unit.Name u, Unit.Status u)) result =
       map (\<lambda>u. (Unit.ID u, Unit.Name u, Unit.Status u)) units @
       map (\<lambda>k8sJob.
              (ObjectMeta.Name (K8sJob.ObjectMeta k8sJob),
               ObjectMeta.Name (K8sJob.ObjectMeta k8sJob),
               if 0 < sint (Failed (K8sJob.Status k8sJob)) then StatusError
               else if 0 < sint (Succeeded (K8sJob.Status k8sJob)) then StatusSucceeded
               else StatusStarted)) k8sJobs"
proof (induction k8sJobs arbitrary: units s)
  case Nil
  then show ?case by simp
next
  case (Cons k8sJob rest)
  from Cons.prems obtain pods s1 where
    pods: "getPodsForJob client k8sJob s = (Inr pods, s1)"
    by (auto split: prod.splits sum.splits)
  with Cons.prems have
    "jobsToJobUnitsLoop co client rest
       (units @
        [\<lparr>ID = ObjectMeta.Name (K8sJob.ObjectMeta k8sJob),
          Name = ObjectMeta.Name (K8sJob.ObjectMeta k8sJob),
          Status = (if 0 < sint (Failed (K8sJob.Status k8sJob)) then StatusError
                    else if 0 < sint (Succeeded (K8sJob.Status k8sJob)) then StatusSucceeded
                    else StatusStarted),
          Restarts = Some (podsRestarts co pods 0),
          CreatedAt = Some (ObjectMeta.CreationTimestamp (K8sJob.ObjectMeta k8sJob))\<rparr>])
       s1 = (Inr result, s')"
    by (simp add: Let_def)
  from Cons.IH [OF this] show ?case by simp
qed

lemma jobsToJobUnits_Inr:
  assumes "jobsToJobUnits co client k8sJobs job s = (Inr result, s')"
  shows "map (\<lambda>u. (Unit.ID u, Unit.Name u, Unit.Status u)) result =
       map (\<lambda>k8sJob.
              (ObjectMeta.Name (K8sJob.ObjectMeta k8sJob),
               ObjectMeta.Name (K8sJob.ObjectMeta k8sJob),
               if 0 < sint (Failed (K8sJob.Status k8sJob)) then StatusError
               else if 0 < sint (Succeeded (K8sJob.Status k8sJob)) then StatusSucceeded
               else StatusStarted)) k8sJobs"
proof (cases "k8sJobs = []")
  case True
  with assms show ?thesis by (simp add: jobsToJobUnits_def)
next
  case False
  with assms have "jobsToJobUnitsLoop co client k8sJobs [] s = (Inr result, s')"
    by (simp add: jobsToJobUnits_def)
  from jobsToJobUnitsLoop_Inr [OF this] show ?thesis by simp
qed

lemma example_units:
  "JobUnits (memoryCollaborators (Inr exampleRequirements)) exampleJob exampleUnitsCluster
     = (Inr exampleUnits, exampleUnitsCluster)"
  by (simp add: JobUnits_def jobsToJobUnits_def getPodsForJob_def memoryCollaborators_def
        memoryClient_def exampleJob_def exampleUnitsCluster_def exampleExecution_def
        otherExecution_def exampleUnits_def emptyObjectMeta_def map_le_def Let_def)

text \<open>
  C1. When \<^verbatim>\<open>JobUnits\<close> returns units, there is one for each execution that the
  orchestrator listed, in the same order and under the execution's name, and its status is
  Error if the failed counter is positive, otherwise Succeeded if the succeeded counter is
  positive, otherwise Started.
\<close>

theorem unit_status_precedence:
  assumes "JobUnits co job s = (Inr units, s')"
  shows "\<exists>client k8sJobs s1.
     clusterForPool co (Pool job) = Inr client \<and>
     JobsList client (PoolNamespace client (Pool job)) (JobLabels co job) s
       = (Inr k8sJobs, s1) \<and>
     length units = length k8sJobs \<and>
     (\<forall>i < length k8sJobs.
        Unit.Name (units ! i) = ObjectMeta.Name (K8sJob.ObjectMeta (k8sJobs ! i)) \<and>
        Unit.Status (units ! i) =
          (if 0 < sint (Failed (K8sJob.Status (k8sJobs ! i))) then StatusError
           else if 0 < sint (Succeeded (K8sJob.Status (k8sJobs ! i))) then StatusSucceeded
           else StatusStarted))"
proof -
  from assms obtain client k8sJobs s1 where
    client: "clusterForPool co (Pool job) = Inr client" and
    list: "JobsList client (PoolNamespace client (Pool job)) (JobLabels co job) s
             = (Inr k8sJobs, s1)" and
    units: "jobsToJobUnits co client k8sJobs job s1 = (Inr units, s')"
    by (auto simp: JobUnits_def Let_def split: sum.splits prod.splits)
  let ?f = "\<lambda>u. (Unit.ID u, Unit.Name u, Unit.Status u)"
  let ?g = "\<lambda>k8sJob.
              (ObjectMeta.Name (K8sJob.ObjectMeta k8sJob),
               ObjectMeta.Name (K8sJob.ObjectMeta k8sJob),
               if 0 < sint (Failed (K8sJob.Status k8sJob)) then StatusError
               else if 0 < sint (Succeeded (K8sJob.Status k8sJob)) then StatusSucceeded
               else StatusStarted)"
  have eq: "map ?f units = map ?g k8sJobs"
    by (rule jobsToJobUnits_Inr [OF units])
  then have len: "length units = length k8sJobs"
    by (rule map_eq_imp_length_eq)
  have "?f (units ! i) = ?g (k8sJobs ! i)" if "i < length k8sJobs" for i
  proof -
    have "map ?f units ! i = map ?g k8sJobs ! i" by (simp only: eq)
    with that len show ?thesis by simp
  qed
  then have "\<forall>i < length k8sJobs.
        Unit.Name (units ! i) = ObjectMeta.Name (K8sJob.ObjectMeta (k8sJobs ! i)) \<and>
        Unit.Status (units ! i) =
          (if 0 < sint (Failed (K8sJob.Status (k8sJobs ! i))) then StatusError
           else if 0 < sint (Succeeded (K8sJob.Status (k8sJobs ! i))) then StatusSucceeded
           else StatusStarted)"
    by simp
  with client list len show ?thesis by blast
qed

theorem unit_status_precedence_witness:
  "JobUnits (memoryCollaborators (Inr exampleRequirements)) exampleJob exampleUnitsCluster
     = (Inr exampleUnits, exampleUnitsCluster) \<and>
   map (\<lambda>k8sJob. (ObjectMeta.Name (K8sJob.ObjectMeta k8sJob),
                   Labels (K8sJob.ObjectMeta k8sJob) ''tsuru.io/job-name'',
                   sint (Failed (K8sJob.Status k8sJob)),
                   sint (Succeeded (K8sJob.Status k8sJob))))
     (jobs exampleUnitsCluster)
     = [(''foo-1'', Some ''foo'', 1, 1), (''bar-1'', Some ''bar'', 1, 0),
        (''foo-2'', Some ''foo'', 0, 1), (''foo-3'', Some ''foo'', 0, 0)] \<and>
   map (\<lambda>u. (Unit.Name u, Unit.Status u)) exampleUnits
     = [(''foo-1'', StatusError), (''foo-2'', StatusSucceeded), (''foo-3'', StatusStarted)]"
  using unit_status_precedence [OF example_units] example_units
  by (simp add: exampleUnits_def exampleUnitsCluster_def exampleExecution_def
        otherExecution_def emptyObjectMeta_def)

section \<open>Properties of the event bridge\<close>

lemma realJobOwnerLoop_eq:
  "realJobOwnerLoop refs r =
     (case filter (\<lambda>owner. OwnerReference.Kind owner = ''CronJob'') refs of
        [] \<Rightarrow> r
      | owners \<Rightarrow> OwnerReference.Name (last owners))"
  by (induction refs arbitrary: r) (auto split: list.splits)

lemma createJobEvent_handled:
  assumes "Reason evt = ''Completed'' \<and> kind = PermJobRun \<and> evtErr = None
         \<or> Reason evt = ''BackoffLimitExceeded'' \<and> kind = PermJobRun
             \<and> evtErr = Some (Failure (''job failed: '' @ Message evt))
         \<or> Reason evt = ''SuccessfulCreate'' \<and> kind = PermJobCreate \<and> evtErr = None"
    and "realJobOwner =
           realJobOwnerLoop (OwnerReferences (K8sJob.ObjectMeta job))
             (ObjectMeta.Name (K8sJob.ObjectMeta job))"
    and "opts =
           \<lparr>Kind = kind,
            Target = \<lparr>Target.Type = TargetTypeJob, Value = realJobOwner\<rparr>,
            Allowed =
              \<lparr>Scheme = PermJobReadEvents,
               Contexts = [\<lparr>CtxType = CtxJob, Value = realJobOwner\<rparr>]\<rparr>,
            RawOwner = OwnerTypeInternal,
            Cancelable = False\<rparr>"
  shows "createJobEvent eventNew timeString job evt =
     (case eventNew opts of
        Inl err \<Rightarrow> Dropped opts err
      | Inr e \<Rightarrow>
          Done opts e evtErr
            [''job-name'' \<mapsto> ObjectMeta.Name (K8sJob.ObjectMeta job),
             ''job-controller'' \<mapsto> realJobOwner,
             ''event-type'' \<mapsto> K8sEvent.Type evt,
             ''event-reason'' \<mapsto> Reason evt,
             ''message'' \<mapsto> Message evt,
             ''cluster-start-time'' \<mapsto> timeString (K8sEvent.CreationTimestamp evt)])"
  using assms by (auto simp: createJobEvent_def Let_def split: sum.splits)

lemma createJobEvent_ignored:
  assumes "Reason evt \<noteq> ''Completed''" "Reason evt \<noteq> ''BackoffLimitExceeded''"
    "Reason evt \<noteq> ''SuccessfulCreate''"
  shows "createJobEvent eventNew timeString job evt = Ignored"
  using assms by (simp add: createJobEvent_def)

text \<open>
  C8. For an event with one of the three handled reasons, the target of the audit
  descriptor is the execution's own name when no owner reference has kind
  \<^verbatim>\<open>CronJob\<close>, and otherwise the name of an owner reference of that kind: the last
  one in the list.
\<close>

theorem real_owner_resolution:
  assumes "Reason evt \<in> {''Completed'', ''BackoffLimitExceeded'', ''SuccessfulCreate''}"
  shows "case createJobEvent eventNew timeString job evt of
       Ignored \<Rightarrow> False
     | Dropped opts err \<Rightarrow>
         Target.Value (Target opts) =
           (case filter (\<lambda>owner. OwnerReference.Kind owner = ''CronJob'')
                   (OwnerReferences (K8sJob.ObjectMeta job)) of
              [] \<Rightarrow> ObjectMeta.Name (K8sJob.ObjectMeta job)
            | owners \<Rightarrow> OwnerReference.Name (last owners))
     | Done opts e evtErr customData \<Rightarrow>
         Target.Value (Target opts) =
           (case filter (\<lambda>owner. OwnerReference.Kind owner = ''CronJob'')
                   (OwnerReferences (K8sJob.ObjectMeta job)) of
              [] \<Rightarrow> ObjectMeta.Name (K8sJob.ObjectMeta job)
            | owners \<Rightarrow> OwnerReference.Name (last owners))"
proof -
  from assms obtain kind evtErr where
    "Reason evt = ''Completed'' \<and> kind = PermJobRun \<and> evtErr = None
         \<or> Reason evt = ''BackoffLimitExceeded'' \<and> kind = PermJobRun
             \<and> evtErr = Some (Failure (''job failed: '' @ Message evt))
         \<or> Reason evt = ''SuccessfulCreate'' \<and> kind = PermJobCreate \<and> evtErr = None"
    by auto
  from createJobEvent_handled [OF this refl refl, of eventNew timeString]
  show ?thesis
    by (simp add: realJobOwnerLoop_eq split: sum.splits)
qed

theorem real_owner_resolution_witness:
  "Reason (exampleEvent ''Completed'')
     \<in> {''Completed'', ''BackoffLimitExceeded'', ''SuccessfulCreate''} \<and>
   map OwnerReference.Kind (OwnerReferences (K8sJob.ObjectMeta ownedExecution)) = [''CronJob''] \<and>
   (case createJobEvent acceptingSink exampleTimeString ownedExecution
           (exampleEvent ''Completed'') of
      Done opts e evtErr customData \<Rightarrow> Target.Value (Target opts) = ''foo''
    | _ \<Rightarrow> False) \<and>
   OwnerReferences (K8sJob.ObjectMeta (exampleExecution ''foo-1'' 0 1)) = [] \<and>
   (case createJobEvent acceptingSink exampleTimeString (exampleExecution ''foo-1'' 0 1)
           (exampleEvent ''Completed'') of
      Done opts e evtErr customData \<Rightarrow> Target.Value (Target opts) = ''foo-1''
    | _ \<Rightarrow> False)"
proof -
  have handled: "Reason (exampleEvent ''Completed'')
     \<in> {''Completed'', ''BackoffLimitExceeded'', ''SuccessfulCreate''}"
    by (simp add: exampleEvent_def)
  have emitted: "\<exists>opts e evtErr customData.
      createJobEvent acceptingSink exampleTimeString job (exampleEvent ''Completed'')
        = Done opts e evtErr customData" for job
    by (simp add: createJobEvent_def acceptingSink_def exampleEvent_def Let_def)
  from real_owner_resolution [OF handled, where eventNew = acceptingSink
         and timeString = exampleTimeString and job = ownedExecution]
    emitted [of ownedExecution]
  have 1: "case createJobEvent acceptingSink exampleTimeString ownedExecution
           (exampleEvent ''Completed'') of
      Done opts e evtErr customData \<Rightarrow> Target.Value (Target opts) = ''foo''
    | _ \<Rightarrow> False"
    by (auto simp: ownedExecution_def exampleExecution_def emptyObjectMeta_def)
  from real_owner_resolution [OF handled, where eventNew = acceptingSink
         and timeString = exampleTimeString and job = "exampleExecution ''foo-1'' 0 1"]
    emitted [of "exampleExecution ''foo-1'' 0 1"]
  have 2: "case createJobEvent acceptingSink exampleTimeString (exampleExecution ''foo-1'' 0 1)
           (exampleEvent ''Completed'') of
      Done opts e evtErr customData \<Rightarrow> Target.Value (Target opts) = ''foo-1''
    | _ \<Rightarrow> False"
    by (auto simp: exampleExecution_def emptyObjectMeta_def)
  from handled 1 2 show ?thesis
    by (simp add: ownedExecution_def exampleExecution_def emptyObjectMeta_def)
qed

text \<open>
  C9. The reason decides the audit kind and error: \<^verbatim>\<open>Completed\<close> gives kind Run
  and no error, \<^verbatim>\<open>BackoffLimitExceeded\<close> kind Run and the error "job failed: "
  followed by the event's message, \<^verbatim>\<open>SuccessfulCreate\<close> kind Create and no error,
  and every other reason gives nothing. The event is dropped exactly when the audit sink
  refuses the descriptor.
\<close>

theorem event_reason_dispatch:
  "(Reason evt = ''Completed'' \<longrightarrow>
      (case createJobEvent eventNew timeString job evt of
         Ignored \<Rightarrow> False
       | Dropped opts err \<Rightarrow> Kind opts = PermJobRun \<and> eventNew opts = Inl err
       | Done opts e evtErr customData \<Rightarrow>
           Kind opts = PermJobRun \<and> evtErr = None \<and> eventNew opts = Inr e)) \<and>
   (Reason evt = ''BackoffLimitExceeded'' \<longrightarrow>
      (case createJobEvent eventNew timeString job evt of
         Ignored \<Rightarrow> False
       | Dropped opts err \<Rightarrow> Kind opts = PermJobRun \<and> eventNew opts = Inl err
       | Done opts e evtErr customData \<Rightarrow>
           Kind opts = PermJobRun \<and> eventNew opts = Inr e \<and>
           evtErr = Some (Failure (''job failed: '' @ Message evt)))) \<and>
   (Reason evt = ''SuccessfulCreate'' \<longrightarrow>
      (case createJobEvent eventNew timeString job evt of
         Ignored \<Rightarrow> False
       | Dropped opts err \<Rightarrow> Kind opts = PermJobCreate \<and> eventNew opts = Inl err
       | Done opts e evtErr customData \<Rightarrow>
           Kind opts = PermJobCreate \<and> evtErr = None \<and> eventNew opts = Inr e)) \<and>
   (Reason evt \<notin> {''Completed'', ''BackoffLimitExceeded'', ''SuccessfulCreate''} \<longrightarrow>
      createJobEvent eventNew timeString job evt = Ignored)"
proof -
  have 1: ?thesis if "Reason evt = ''Completed''"
    using that createJobEvent_handled [of evt PermJobRun None _ job _ eventNew timeString, OF _ refl refl]
    by (simp split: sum.splits)
  have 2: ?thesis if "Reason evt = ''BackoffLimitExceeded''"
    using that createJobEvent_handled [of evt PermJobRun "Some (Failure (''job failed: '' @ Message evt))" _ job _ eventNew timeString, OF _ refl refl]
    by (simp split: sum.splits)
  have 3: ?thesis if "Reason evt = ''SuccessfulCreate''"
    using that createJobEvent_handled [of evt PermJobCreate None _ job _ eventNew timeString, OF _ refl refl]
    by (simp split: sum.splits)
  have 4: ?thesis
    if "Reason evt \<notin> {''Completed'', ''BackoffLimitExceeded'', ''SuccessfulCreate''}"
    using that by (simp add: createJobEvent_ignored)
  from 1 2 3 4 show ?thesis by blast
qed

theorem event_reason_dispatch_witness:
  "(case createJobEvent acceptingSink exampleTimeString ownedExecution
           (exampleEvent ''Completed'') of
      Done opts e evtErr customData \<Rightarrow> Kind opts = PermJobRun \<and> evtErr = None
    | _ \<Rightarrow> False) \<and>
   (case createJobEvent acceptingSink exampleTimeString ownedExecution
           (exampleEvent ''BackoffLimitExceeded'') of
      Done opts e evtErr customData \<Rightarrow>
        Kind opts = PermJobRun \<and> evtErr = Some (Failure ''job failed: pod failed'')
    | _ \<Rightarrow> False) \<and>
   (case createJobEvent acceptingSink exampleTimeString ownedExecution
           (exampleEvent ''SuccessfulCreate'') of
      Done opts e evtErr customData \<Rightarrow> Kind opts = PermJobCreate \<and> evtErr = None
    | _ \<Rightarrow> False) \<and>
   (case createJobEvent rejectingSink exampleTimeString ownedExecution
           (exampleEvent ''Completed'') of
      Dropped opts err \<Rightarrow> Kind opts = PermJobRun \<and> err = Failure ''event store down''
    | _ \<Rightarrow> False) \<and>
   ''Killing'' \<notin> {''Completed'', ''BackoffLimitExceeded'', ''SuccessfulCreate''} \<and>
   createJobEvent acceptingSink exampleTimeString ownedExecution (exampleEvent ''Killing'')
     = Ignored"
proof -
  have reason [simp]: "Reason (exampleEvent r) = r" "Message (exampleEvent r) = ''pod failed''"
    for r
    by (simp_all add: exampleEvent_def)
  have accepted [simp]: "createJobEvent acceptingSink ts job evt \<noteq> Dropped opts err"
    for ts job evt opts err
    by (simp add: createJobEvent_def acceptingSink_def Let_def split: option.splits)
  have rejected [simp]: "createJobEvent rejectingSink ts job evt \<noteq> Done opts e evtErr cd"
    for ts job evt opts e evtErr cd
    by (simp add: createJobEvent_def rejectingSink_def Let_def split: option.splits)
  from event_reason_dispatch [of "exampleEvent ''Completed''" acceptingSink exampleTimeString
         ownedExecution]
  have 1: "case createJobEvent acceptingSink exampleTimeString ownedExecution
           (exampleEvent ''Completed'') of
      Done opts e evtErr customData \<Rightarrow> Kind opts = PermJobRun \<and> evtErr = None
    | _ \<Rightarrow> False"
    by (simp split: JobEventOutcome.splits)
  from event_reason_dispatch [of "exampleEvent ''BackoffLimitExceeded''" acceptingSink
         exampleTimeString ownedExecution]
  have 2: "case createJobEvent acceptingSink exampleTimeString ownedExecution
           (exampleEvent ''BackoffLimitExceeded'') of
      Done opts e evtErr customData \<Rightarrow>
        Kind opts = PermJobRun \<and> evtErr = Some (Failure ''job failed: pod failed'')
    | _ \<Rightarrow> False"
    by (simp split: JobEventOutcome.splits)
  from event_reason_dispatch [of "exampleEvent ''SuccessfulCreate''" acceptingSink
         exampleTimeString ownedExecution]
  have 3: "case createJobEvent acceptingSink exampleTimeString ownedExecution
           (exampleEvent ''SuccessfulCreate'') of
      Done opts e evtErr customData \<Rightarrow> Kind opts = PermJobCreate \<and> evtErr = None
    | _ \<Rightarrow> False"
    by (simp split: JobEventOutcome.splits)
  from event_reason_dispatch [of "exampleEvent ''Completed''" rejectingSink exampleTimeString
         ownedExecution]
  have 4: "case createJobEvent rejectingSink exampleTimeString ownedExecution
           (exampleEvent ''Completed'') of
      Dropped opts err \<Rightarrow> Kind opts = PermJobRun \<and> err = Failure ''event store down''
    | _ \<Rightarrow> False"
    by (simp add: rejectingSink_def split: JobEventOutcome.splits)
  from event_reason_dispatch [of "exampleEvent ''Killing''" acceptingSink exampleTimeString
         ownedExecution]
  have 5: "createJobEvent acceptingSink exampleTimeString ownedExecution
             (exampleEvent ''Killing'') = Ignored"
    by simp
  from 1 2 3 4 5 show ?thesis by simp
qed

end
